theory Spec2Isabelle
  imports Complex_Main "HOL-Library.Multiset"
begin

section \<open>SpendWise expense API: the values of the JavaScript runtime\<close>

text \<open>
  The development embeds the four route handlers of \<^verbatim>\<open>src/backend/index.js\<close>
  (POST /api/expenses, GET /api/expenses, GET /api/expenses/total and
  DELETE /api/expenses/:id) together with the built-ins they call
  (\<^verbatim>\<open>parseFloat\<close>, \<^verbatim>\<open>parseInt\<close>, \<^verbatim>\<open>isNaN\<close>, \<^verbatim>\<open>String.prototype.trim\<close>,
  \<^verbatim>\<open>Array.prototype.includes\<close>), the table of \<^verbatim>\<open>src/backend/init.sql\<close> and the
  SQL statements the handlers send.
\<close>

subsection \<open>Numbers\<close>

text \<open>
  A JavaScript number is NaN, one of the two infinities, or a finite binary64 value,
  kept here as the rational it denotes. The two zeros are one value: nothing in the
  handlers tells them apart (\<^verbatim>\<open>-0 < 0\<close> and \<^verbatim>\<open>0 < 0\<close> are both false,
  \<^verbatim>\<open>-0 <= 0\<close> and \<^verbatim>\<open>0 <= 0\<close> both true, and both print as \<^verbatim>\<open>0\<close>).
\<close>

datatype jsnum = NaN | PosInf | NegInf | Fin rat

fun isNaN :: "jsnum \<Rightarrow> bool" where
  "isNaN NaN = True"
| "isNaN _ = False"

text \<open>The relational operators \<^verbatim>\<open><\<close> and \<^verbatim>\<open><=\<close> on numbers: false whenever an operand is NaN.\<close>

fun js_lt :: "jsnum \<Rightarrow> jsnum \<Rightarrow> bool" where
  "js_lt NaN _ = False"
| "js_lt _ NaN = False"
| "js_lt PosInf _ = False"
| "js_lt _ NegInf = False"
| "js_lt NegInf _ = True"
| "js_lt _ PosInf = True"
| "js_lt (Fin a) (Fin b) = (a < b)"

fun js_le :: "jsnum \<Rightarrow> jsnum \<Rightarrow> bool" where
  "js_le NaN _ = False"
| "js_le _ NaN = False"
| "js_le NegInf _ = True"
| "js_le _ PosInf = True"
| "js_le PosInf _ = False"
| "js_le _ NegInf = False"
| "js_le (Fin a) (Fin b) = (a \<le> b)"

fun js_neg :: "jsnum \<Rightarrow> jsnum" where
  "js_neg NaN = NaN"
| "js_neg PosInf = NegInf"
| "js_neg NegInf = PosInf"
| "js_neg (Fin q) = Fin (- q)"

text \<open>
  Rounding of a mathematical value to binary64 (round to nearest, ties to even), as
  \<^verbatim>\<open>parseFloat\<close> and \<^verbatim>\<open>parseInt\<close> apply it to the value of the digits they read:
  53 significant bits, least exponent \<open>-1022\<close>, and infinity from \<open>2^1024\<close> on.
\<close>

function bit_length :: "int \<Rightarrow> nat" where
  "bit_length n = (if n \<le> 0 then 0 else Suc (bit_length (n div 2)))"
  by pat_completeness auto
termination
  by (relation "measure nat") auto

declare bit_length.simps [simp del]

definition pow2 :: "int \<Rightarrow> rat" where
  "pow2 e = (if 0 \<le> e then 2 ^ nat e else 1 / 2 ^ nat (- e))"

definition pow10 :: "int \<Rightarrow> rat" where
  "pow10 e = (if 0 \<le> e then 10 ^ nat e else 1 / 10 ^ nat (- e))"

text \<open>For \<open>q > 0\<close>, \<open>binade q\<close> is the exponent \<open>e\<close> with \<open>2^e \<le> q < 2^(e+1)\<close>.\<close>

definition binade :: "rat \<Rightarrow> int" where
  "binade q =
     (let (n, d) = quotient_of q;
          e0 = int (bit_length n) - int (bit_length d)
      in if pow2 e0 \<le> q then e0 else e0 - 1)"

definition round_half_even :: "rat \<Rightarrow> int" where
  "round_half_even x =
     (let f = \<lfloor>x\<rfloor>; r = x - of_int f
      in if r < 1 / 2 then f
         else if 1 / 2 < r then f + 1
         else if even f then f else f + 1)"

definition to_double :: "rat \<Rightarrow> jsnum" where
  "to_double q =
     (if q = 0 then Fin 0
      else let a = \<bar>q\<bar>;
               u = pow2 (max (binade a) (- 1022) - 52);
               m = of_int (round_half_even (a / u)) * u
           in if pow2 1024 \<le> m then (if q < 0 then NegInf else PosInf)
              else Fin (if q < 0 then - m else m))"

subsection \<open>Strings\<close>

text \<open>
  A string is a list of code units below 256. White space is what ECMAScript's
  \<^verbatim>\<open>WhiteSpace\<close> and \<^verbatim>\<open>LineTerminator\<close> hold in that range: TAB, LF, VT, FF, CR,
  SP and NBSP.
\<close>

definition is_space :: "char \<Rightarrow> bool" where
  "is_space c = (of_char c \<in> {9, 10, 11, 12, 13, 32, 160 :: nat})"

definition is_digit :: "char \<Rightarrow> bool" where
  "is_digit c = (48 \<le> (of_char c :: nat) \<and> (of_char c :: nat) \<le> 57)"

definition digit_val :: "char \<Rightarrow> int" where
  "digit_val c = of_char c - 48"

definition digits_value :: "string \<Rightarrow> int" where
  "digits_value ds = foldl (\<lambda>n c. 10 * n + digit_val c) 0 ds"

text \<open>\<^verbatim>\<open>String.prototype.trim\<close>: white space removed at both ends.\<close>

definition trim :: "string \<Rightarrow> string" where
  "trim s = rev (dropWhile is_space (rev (dropWhile is_space s)))"

definition starts_with :: "string \<Rightarrow> string \<Rightarrow> bool" where
  "starts_with p s = (take (length p) s = p)"

subsection \<open>\<^verbatim>\<open>parseFloat\<close> on a string\<close>

text \<open>
  \<^verbatim>\<open>parseFloat\<close> drops leading white space and reads the longest prefix that is a
  \<^verbatim>\<open>StrDecimalLiteral\<close>: an optional sign, then \<^verbatim>\<open>Infinity\<close> or decimal digits with
  an optional fraction and an optional exponent (\<^verbatim>\<open>12\<close>, \<^verbatim>\<open>12.\<close>, \<^verbatim>\<open>12.5\<close>,
  \<^verbatim>\<open>.5\<close>, each optionally followed by \<^verbatim>\<open>e\<close> or \<^verbatim>\<open>E\<close>, a sign and digits).
  What follows the prefix is ignored; with no such prefix the result is NaN.
\<close>

definition exponent_part :: "string \<Rightarrow> int" where
  "exponent_part s =
     (case s of
        [] \<Rightarrow> 0
      | c # r \<Rightarrow>
          if c = CHR ''e'' \<or> c = CHR ''E'' then
            (case r of
               [] \<Rightarrow> 0
             | d # r' \<Rightarrow>
                 if d = CHR ''+'' then digits_value (takeWhile is_digit r')
                 else if d = CHR ''-'' then - digits_value (takeWhile is_digit r')
                 else digits_value (takeWhile is_digit r))
          else 0)"

definition str_unsigned_decimal :: "string \<Rightarrow> jsnum" where
  "str_unsigned_decimal s =
     (if starts_with ''Infinity'' s then PosInf
      else
        let ip = takeWhile is_digit s;
            r1 = dropWhile is_digit s;
            (fp, r2) = (case r1 of
                          [] \<Rightarrow> ([], r1)
                        | c # r \<Rightarrow>
                            if c = CHR ''.'' then (takeWhile is_digit r, dropWhile is_digit r)
                            else ([], r1))
        in if ip = [] \<and> fp = [] then NaN
           else to_double (of_int (digits_value (ip @ fp)) / 10 ^ length fp
                           * pow10 (exponent_part r2)))"

definition str_decimal :: "string \<Rightarrow> jsnum" where
  "str_decimal s =
     (case s of
        [] \<Rightarrow> NaN
      | c # r \<Rightarrow>
          if c = CHR ''+'' then str_unsigned_decimal r
          else if c = CHR ''-'' then js_neg (str_unsigned_decimal r)
          else str_unsigned_decimal s)"

definition parseFloat_string :: "string \<Rightarrow> jsnum" where
  "parseFloat_string s = str_decimal (dropWhile is_space s)"

subsection \<open>\<^verbatim>\<open>parseInt\<close> on a string, no radix given\<close>

text \<open>
  Leading white space and one sign are dropped; a following \<^verbatim>\<open>0x\<close> or \<^verbatim>\<open>0X\<close> selects
  radix 16, otherwise the radix is 10; the longest run of digits of that radix is read
  and the rest ignored. \<open>parseInt_math\<close> is the integer the digits denote (\<open>None\<close> when
  there is no digit: the result is NaN); \<^verbatim>\<open>parseInt\<close> returns it as a number.
\<close>

definition is_hex_digit :: "char \<Rightarrow> bool" where
  "is_hex_digit c =
     (let n = (of_char c :: nat)
      in (48 \<le> n \<and> n \<le> 57) \<or> (65 \<le> n \<and> n \<le> 70) \<or> (97 \<le> n \<and> n \<le> 102))"

definition hex_val :: "char \<Rightarrow> int" where
  "hex_val c =
     (let n = (of_char c :: int)
      in if n \<le> 57 then n - 48 else if n \<le> 70 then n - 55 else n - 87)"

definition hex_value :: "string \<Rightarrow> int" where
  "hex_value ds = foldl (\<lambda>n c. 16 * n + hex_val c) 0 ds"

definition unsigned_int_math :: "string \<Rightarrow> int option" where
  "unsigned_int_math s =
     (if starts_with ''0x'' s \<or> starts_with ''0X'' s then
        (let ds = takeWhile is_hex_digit (drop 2 s)
         in if ds = [] then None else Some (hex_value ds))
      else
        (let ds = takeWhile is_digit s
         in if ds = [] then None else Some (digits_value ds)))"

definition parseInt_math :: "string \<Rightarrow> int option" where
  "parseInt_math s =
     (case dropWhile is_space s of
        [] \<Rightarrow> None
      | c # r \<Rightarrow>
          if c = CHR ''+'' then unsigned_int_math r
          else if c = CHR ''-'' then map_option uminus (unsigned_int_math r)
          else unsigned_int_math (c # r))"

definition parseInt :: "string \<Rightarrow> jsnum" where
  "parseInt s = (case parseInt_math s of None \<Rightarrow> NaN | Some n \<Rightarrow> to_double (of_int n))"

subsection \<open>Values\<close>

text \<open>
  The values the handlers see: what \<^verbatim>\<open>express.json()\<close> and the query-string parser
  put into \<^verbatim>\<open>req.body\<close> and \<^verbatim>\<open>req.query\<close> (JSON values, and \<^verbatim>\<open>undefined\<close> for
  what is absent), and what the database driver returns in \<^verbatim>\<open>result.rows\<close>
  (objects whose fields are numbers, strings, \<^verbatim>\<open>null\<close> and \<^verbatim>\<open>Date\<close>s). An object
  is the list of its own properties; no value of these is ever a function.
\<close>

datatype jsval =
    JUndefined
  | JNull
  | JBool bool
  | JNum jsnum
  | JStr string
  | JArr "jsval list"
  | JObj "(string \<times> jsval) list"
  | JDate int

text \<open>\<^verbatim>\<open>ToBoolean\<close>, as \<^verbatim>\<open>!x\<close>, \<^verbatim>\<open>x && y\<close> and \<^verbatim>\<open>if (x)\<close> apply it.\<close>

fun truthy :: "jsval \<Rightarrow> bool" where
  "truthy JUndefined = False"
| "truthy JNull = False"
| "truthy (JBool b) = b"
| "truthy (JNum n) = (n \<noteq> NaN \<and> n \<noteq> Fin 0)"
| "truthy (JStr s) = (s \<noteq> [])"
| "truthy (JArr xs) = True"
| "truthy (JObj fs) = True"
| "truthy (JDate t) = True"

text \<open>
  Reading a property, for the names the handlers read (\<^verbatim>\<open>itemName\<close>, \<^verbatim>\<open>amount\<close>,
  \<^verbatim>\<open>category\<close>, \<^verbatim>\<open>total\<close>: none is a property of a prototype). On \<^verbatim>\<open>undefined\<close>
  and \<^verbatim>\<open>null\<close> the read throws a TypeError (\<open>None\<close>); an object gives its own
  property or \<^verbatim>\<open>undefined\<close>; every other value gives \<^verbatim>\<open>undefined\<close>.
\<close>

fun get_prop :: "jsval \<Rightarrow> string \<Rightarrow> jsval option" where
  "get_prop JUndefined k = None"
| "get_prop JNull k = None"
| "get_prop (JObj fs) k = Some (case map_of fs k of None \<Rightarrow> JUndefined | Some v \<Rightarrow> v)"
| "get_prop v k = Some JUndefined"

text \<open>
  \<^verbatim>\<open>x.trim()\<close>: on a string, the trimmed string. On every other value that is not
  \<^verbatim>\<open>undefined\<close> or \<^verbatim>\<open>null\<close> the property \<^verbatim>\<open>trim\<close> is \<^verbatim>\<open>undefined\<close> or (an own
  property of a parsed object) not a function, and calling it throws a TypeError.
\<close>

fun call_trim :: "jsval \<Rightarrow> string option" where
  "call_trim (JStr s) = Some (trim s)"
| "call_trim v = None"

text \<open>
  \<^verbatim>\<open>ToString\<close> throws a TypeError on an object that has an own property
  \<^verbatim>\<open>toString\<close> (it is not a function, and \<^verbatim>\<open>Object.prototype.valueOf\<close> returns the
  object itself), and on an array one of whose elements it throws on
  (\<^verbatim>\<open>Array.prototype.join\<close> converts every element).
\<close>

fun tostring_throws :: "jsval \<Rightarrow> bool" where
  "tostring_throws (JObj fs) = (''toString'' \<in> set (map fst fs))"
| "tostring_throws (JArr xs) = list_ex tostring_throws xs"
| "tostring_throws v = False"

text \<open>
  \<^verbatim>\<open>parseFloat(ToString(v))\<close> where \<^verbatim>\<open>ToString\<close> returns. A number prints as a
  literal that reads back as the same number. An array prints as its elements'
  strings joined by commas, \<^verbatim>\<open>null\<close> and \<^verbatim>\<open>undefined\<close> elements as the empty
  string; no literal contains a comma, so the prefix read is the one read from the
  first element. \<^verbatim>\<open>undefined\<close>, \<^verbatim>\<open>null\<close>, \<^verbatim>\<open>true\<close>, \<^verbatim>\<open>false\<close>,
  \<^verbatim>\<open>[object Object]\<close> and a date's string begin with no literal.
\<close>

fun number_prefix :: "jsval \<Rightarrow> jsnum" where
  "number_prefix (JNum n) = n"
| "number_prefix (JStr s) = parseFloat_string s"
| "number_prefix (JArr (x # xs)) = number_prefix x"
| "number_prefix v = NaN"

definition parseFloat :: "jsval \<Rightarrow> jsnum option" where
  "parseFloat v = (if tostring_throws v then None else Some (number_prefix v))"

text \<open>\<^verbatim>\<open>validCategories.includes(x)\<close> on an array of strings: \<open>x\<close> is one of the strings.\<close>

fun js_includes :: "string list \<Rightarrow> jsval \<Rightarrow> bool" where
  "js_includes xs (JStr c) = (c \<in> set xs)"
| "js_includes xs v = False"

section \<open>The handlers\<close>

subsection \<open>Requests, responses and the connection pool\<close>

text \<open>
  \<^verbatim>\<open>pool.query(text, params)\<close> sends one statement with its bound parameters. The
  promise it returns is rejected (\<open>Rejects\<close>: \<^verbatim>\<open>await\<close> throws) or resolves to a
  result whose \<^verbatim>\<open>rows\<close> is an array. The pool is a parameter of every handler: a
  function from the statement and the state of the store to the outcome and the new
  state.
\<close>

type_synonym statement = "string \<times> jsval list"

datatype qresult = Rejects | Rows "jsval list"

type_synonym 's pool = "statement \<Rightarrow> 's \<Rightarrow> qresult \<times> 's"

text \<open>
  A response is a status and a payload: the value given to \<^verbatim>\<open>res.json\<close>, or the
  error page of Express's built-in error handler.
\<close>

datatype payload = Json jsval | ErrorPage

record response =
  status :: nat
  payload :: payload

text \<open>
  What running a handler did: the responses it sent, in order; whether it threw
  outside its \<^verbatim>\<open>try\<close> block (the promise of the \<^verbatim>\<open>async\<close> function is rejected);
  the statements it sent to the pool, in order; the store afterwards.
\<close>

record 's run =
  sent :: "response list"
  threw :: bool
  issued :: "statement list"
  store :: 's

definition responds :: "nat \<Rightarrow> jsval \<Rightarrow> statement list \<Rightarrow> 's \<Rightarrow> 's run" where
  "responds code v stmts s =
     \<lparr>sent = [\<lparr>status = code, payload = Json v\<rparr>], threw = False, issued = stmts, store = s\<rparr>"

definition throws :: "statement list \<Rightarrow> 's \<Rightarrow> 's run" where
  "throws stmts s = \<lparr>sent = [], threw = True, issued = stmts, store = s\<rparr>"

definition error_body :: "string \<Rightarrow> jsval" where
  "error_body msg = JObj [(''error'', JStr msg)]"

text \<open>
  The README names the framework: Express 5. Its router passes the rejection of a
  handler's promise to \<^verbatim>\<open>next(err)\<close>; \<^verbatim>\<open>index.js\<close> registers no error middleware, so
  the built-in error handler answers: status 500 and an error page when no response
  has been sent yet, and nothing more when one has.
\<close>

definition express :: "'s run \<Rightarrow> 's run" where
  "express r =
     (if threw r \<and> sent r = [] then r\<lparr>sent := [\<lparr>status = 500, payload = ErrorPage\<rparr>]\<rparr>
      else r)"

subsection \<open>POST /api/expenses\<close>

definition validCategories :: "string list" where
  "validCategories =
     [''Food'', ''Transport'', ''Entertainment'', ''Shopping'', ''Bills'', ''Other'']"

text \<open>\<^verbatim>\<open>category && validCategories.includes(category) ? category : 'Other'\<close>\<close>

definition expenseCategory :: "jsval \<Rightarrow> jsval" where
  "expenseCategory category =
     (if truthy category \<and> js_includes validCategories category then category
      else JStr ''Other'')"

definition insert_sql :: string where
  "insert_sql =
     ''INSERT INTO expenses (item_name, amount, category) VALUES ($1, $2, $3) RETURNING *''"

text \<open>\<^verbatim>\<open>result.rows[0]\<close>: \<^verbatim>\<open>undefined\<close> on an empty array.\<close>

definition first_row :: "jsval list \<Rightarrow> jsval" where
  "first_row rows = (case rows of [] \<Rightarrow> JUndefined | r # _ \<Rightarrow> r)"

text \<open>
  The handler, on \<^verbatim>\<open>req.body\<close>. Destructuring \<^verbatim>\<open>undefined\<close> or \<^verbatim>\<open>null\<close> throws;
  so do \<^verbatim>\<open>itemName.trim()\<close> on a value that is not a string and \<^verbatim>\<open>parseFloat\<close> on
  a value with no string: all three stand before the \<^verbatim>\<open>try\<close> block.
\<close>

definition post_expenses :: "'s pool \<Rightarrow> jsval \<Rightarrow> 's \<Rightarrow> 's run" where
  "post_expenses query body s =
     (case (get_prop body ''itemName'', get_prop body ''amount'', get_prop body ''category'') of
        (Some itemName, Some amount, Some category) \<Rightarrow>
          if \<not> truthy itemName then
            responds 400 (error_body ''Item name is required and cannot be empty'') [] s
          else
            (case call_trim itemName of
               None \<Rightarrow> throws [] s
             | Some name \<Rightarrow>
                 if name = [] then
                   responds 400 (error_body ''Item name is required and cannot be empty'') [] s
                 else if amount = JUndefined \<or> amount = JNull then
                   responds 400 (error_body ''Amount is required'') [] s
                 else
                   (case parseFloat amount of
                      None \<Rightarrow> throws [] s
                    | Some numAmount \<Rightarrow>
                        if isNaN numAmount \<or> js_lt numAmount (Fin 0) then
                          responds 400 (error_body ''Amount must be a positive number'') [] s
                        else
                          (let stmt = (insert_sql,
                                       [JStr name, JNum numAmount, expenseCategory category])
                           in case query stmt s of
                                (Rows rows, s') \<Rightarrow>
                                  responds 201
                                    (JObj [(''message'', JStr ''Expense added successfully''),
                                           (''expense'', first_row rows)])
                                    [stmt] s'
                              | (Rejects, s') \<Rightarrow>
                                  responds 500
                                    (error_body ''Failed to add expense to database'')
                                    [stmt] s')))
      | _ \<Rightarrow> throws [] s)"

subsection \<open>GET /api/expenses and GET /api/expenses/total\<close>

text \<open>
  Both build the statement the same way, on \<^verbatim>\<open>req.query.category\<close>
  (\<^verbatim>\<open>undefined\<close> when the parameter is absent): \<^verbatim>\<open>if (category)\<close> appends the
  predicate and pushes the value as the one bound parameter.
\<close>

definition with_category :: "string \<Rightarrow> jsval \<Rightarrow> statement" where
  "with_category base category =
     (if truthy category then (base @ '' WHERE category = $1'', [category])
      else (base, []))"

definition list_statement :: "jsval \<Rightarrow> statement" where
  "list_statement category =
     (let (text, params) = with_category ''SELECT * FROM expenses'' category
      in (text @ '' ORDER BY created_at DESC'', params))"

definition get_expenses :: "'s pool \<Rightarrow> jsval \<Rightarrow> 's \<Rightarrow> 's run" where
  "get_expenses query category s =
     (let stmt = list_statement category
      in case query stmt s of
           (Rows rows, s') \<Rightarrow> responds 200 (JObj [(''expenses'', JArr rows)]) [stmt] s'
         | (Rejects, s') \<Rightarrow>
             responds 500 (error_body ''Failed to fetch expenses from database'') [stmt] s')"

definition total_statement :: "jsval \<Rightarrow> statement" where
  "total_statement category =
     with_category ''SELECT COALESCE(SUM(amount), 0) as total FROM expenses'' category"

text \<open>
  \<^verbatim>\<open>parseFloat(result.rows[0].total)\<close> stands inside the \<^verbatim>\<open>try\<close> block: reading
  \<^verbatim>\<open>total\<close> of \<^verbatim>\<open>undefined\<close> (no row) and a throwing \<^verbatim>\<open>parseFloat\<close> end in the
  \<^verbatim>\<open>catch\<close> branch, like a rejected query.
\<close>

definition get_expenses_total :: "'s pool \<Rightarrow> jsval \<Rightarrow> 's \<Rightarrow> 's run" where
  "get_expenses_total query category s =
     (let stmt = total_statement category;
          failed = responds 500 (error_body ''Failed to calculate total spending'') [stmt]
      in case query stmt s of
           (Rows rows, s') \<Rightarrow>
             (case get_prop (first_row rows) ''total'' of
                None \<Rightarrow> failed s'
              | Some t \<Rightarrow>
                  (case parseFloat t of
                     None \<Rightarrow> failed s'
                   | Some num \<Rightarrow> responds 200 (JObj [(''total'', JNum num)]) [stmt] s'))
         | (Rejects, s') \<Rightarrow> failed s')"

subsection \<open>DELETE /api/expenses/:id\<close>

definition select_by_id_sql :: string where
  "select_by_id_sql = ''SELECT * FROM expenses WHERE id = $1''"

definition delete_sql :: string where
  "delete_sql = ''DELETE FROM expenses WHERE id = $1''"

text \<open>The handler, on \<^verbatim>\<open>req.params.id\<close>, a string.\<close>

definition delete_expense :: "'s pool \<Rightarrow> string \<Rightarrow> 's \<Rightarrow> 's run" where
  "delete_expense query ident s =
     (let expenseId = parseInt ident
      in if isNaN expenseId \<or> js_le expenseId (Fin 0) then
           responds 400 (error_body ''Invalid expense ID'') [] s
         else
           (let check = (select_by_id_sql, [JNum expenseId]);
                del = (delete_sql, [JNum expenseId]);
                failed = responds 500 (error_body ''Failed to delete expense from database'')
            in case query check s of
                 (Rejects, s1) \<Rightarrow> failed [check] s1
               | (Rows found, s1) \<Rightarrow>
                   if length found = 0 then
                     responds 404 (error_body ''Expense not found'') [check] s1
                   else
                     (case query del s1 of
                        (Rejects, s2) \<Rightarrow> failed [check, del] s2
                      | (Rows deleted, s2) \<Rightarrow>
                          responds 200
                            (JObj [(''message'', JStr ''Expense deleted successfully''),
                                   (''id'', JNum expenseId)])
                            [check, del] s2)))"

section \<open>The table and the statements on it\<close>

text \<open>
  \<^verbatim>\<open>init.sql\<close> declares the one table:
  \<^verbatim>\<open>id SERIAL PRIMARY KEY\<close>, \<^verbatim>\<open>item_name VARCHAR(255) NOT NULL\<close>,
  \<^verbatim>\<open>amount NUMERIC(10, 2) NOT NULL CHECK (amount >= 0)\<close>,
  \<^verbatim>\<open>category VARCHAR(50) DEFAULT 'Other'\<close> (it may be null) and
  \<^verbatim>\<open>created_at TIMESTAMP DEFAULT CURRENT_TIMESTAMP\<close>.
  A row holds its amount in hundredths, a natural number; the table is the list of
  its rows.
\<close>

record expense =
  row_id :: int
  row_item_name :: string
  row_amount :: nat
  row_category :: "string option"
  row_created_at :: int

text \<open>
  The driver returns a row as an object: the integer as a number, the numeric as its
  decimal text with two places (\<^verbatim>\<open>25.50\<close>), the timestamp as a \<^verbatim>\<open>Date\<close>.
\<close>

definition digit_char :: "nat \<Rightarrow> char" where
  "digit_char d = char_of (48 + d)"

fun decimal_digits :: "nat \<Rightarrow> string" where
  "decimal_digits n =
     (if n < 10 then [digit_char n] else decimal_digits (n div 10) @ [digit_char (n mod 10)])"

declare decimal_digits.simps [simp del]

definition numeric_text :: "nat \<Rightarrow> string" where
  "numeric_text n =
     decimal_digits (n div 100) @ ''.'' @ [digit_char (n div 10 mod 10), digit_char (n mod 10)]"

definition row_object :: "expense \<Rightarrow> jsval" where
  "row_object r =
     JObj [(''id'', JNum (Fin (of_int (row_id r)))),
           (''item_name'', JStr (row_item_name r)),
           (''amount'', JStr (numeric_text (row_amount r))),
           (''category'', case row_category r of None \<Rightarrow> JNull | Some c \<Rightarrow> JStr c),
           (''created_at'', JDate (row_created_at r))]"

text \<open>
  \<^verbatim>\<open>ORDER BY created_at DESC\<close>. SQL leaves the order of rows of equal time open;
  here they stay in the table's order.
\<close>

definition newest_first :: "expense list \<Rightarrow> expense list" where
  "newest_first rows = sort_key (\<lambda>r. - row_created_at r) rows"

text \<open>\<^verbatim>\<open>WHERE category = $1\<close>: a null category equals nothing.\<close>

definition in_category :: "string \<Rightarrow> expense list \<Rightarrow> expense list" where
  "in_category c rows = filter (\<lambda>r. row_category r = Some c) rows"

text \<open>
  \<^verbatim>\<open>COALESCE(SUM(amount), 0) as total\<close>: one row. The sum of no rows is null and
  \<^verbatim>\<open>COALESCE\<close> puts the integer \<^verbatim>\<open>0\<close> in its place; the sum of some rows is a
  numeric with two places.
\<close>

definition total_row :: "expense list \<Rightarrow> jsval" where
  "total_row rows =
     JObj [(''total'',
            JStr (if rows = [] then ''0''
                  else numeric_text (sum_list (map row_amount rows))))]"

text \<open>
  The parameter bound to \<^verbatim>\<open>id = $1\<close> arrives as text and is read as a 32-bit
  integer; text that is not one (a fraction, an exponent, \<^verbatim>\<open>Infinity\<close>, a value out
  of range) is an error.
\<close>

definition int4_param :: "jsnum \<Rightarrow> int option" where
  "int4_param x =
     (case x of
        Fin q \<Rightarrow>
          if of_int \<lfloor>q\<rfloor> = q \<and> - 2147483648 \<le> q \<and> q \<le> 2147483647 then Some \<lfloor>q\<rfloor> else None
      | _ \<Rightarrow> None)"

text \<open>
  The database on the statements the read and delete handlers send, with the
  parameters they bind: no parameter, one string, one number. A string holding the
  code unit 0 is refused by the server. On every other statement the database is the
  parameter \<open>other\<close>.
\<close>

fun pg :: "expense list pool \<Rightarrow> expense list pool" where
  "pg other (sql, []) table =
     (if sql = ''SELECT * FROM expenses ORDER BY created_at DESC'' then
        (Rows (map row_object (newest_first table)), table)
      else if sql = ''SELECT COALESCE(SUM(amount), 0) as total FROM expenses'' then
        (Rows [total_row table], table)
      else other (sql, []) table)"
| "pg other (sql, [JStr c]) table =
     (if sql = ''SELECT * FROM expenses WHERE category = $1 ORDER BY created_at DESC'' then
        (if CHR 0x00 \<in> set c then (Rejects, table)
         else (Rows (map row_object (newest_first (in_category c table))), table))
      else if sql = ''SELECT COALESCE(SUM(amount), 0) as total FROM expenses WHERE category = $1'' then
        (if CHR 0x00 \<in> set c then (Rejects, table)
         else (Rows [total_row (in_category c table)], table))
      else other (sql, [JStr c]) table)"
| "pg other (sql, [JNum x]) table =
     (if sql = ''SELECT * FROM expenses WHERE id = $1'' then
        (case int4_param x of
           None \<Rightarrow> (Rejects, table)
         | Some n \<Rightarrow> (Rows (map row_object (filter (\<lambda>r. row_id r = n) table)), table))
      else if sql = ''DELETE FROM expenses WHERE id = $1'' then
        (case int4_param x of
           None \<Rightarrow> (Rejects, table)
         | Some n \<Rightarrow> (Rows [], filter (\<lambda>r. row_id r \<noteq> n) table))
      else other (sql, [JNum x]) table)"
| "pg other stmt table = other stmt table"

declare pg.simps [simp del]

subsection \<open>The insert\<close>

text \<open>
  \<^verbatim>\<open>INSERT INTO expenses (item_name, amount, category) VALUES ($1, $2, $3) RETURNING *\<close>
  with a string, a number and a string bound. What the table does not hold is given
  from outside: the value the sequence behind \<^verbatim>\<open>id SERIAL\<close> hands out, the time of
  \<^verbatim>\<open>CURRENT_TIMESTAMP\<close>, and the reading of the number's text as a numeric with two
  places, in hundredths (\<open>None\<close> when the server reads no numeric that is at least
  0: the column has \<^verbatim>\<open>CHECK (amount >= 0)\<close>).
\<close>

record insert_env =
  numeric_in :: "jsnum \<Rightarrow> nat option"
  next_id :: int
  current_timestamp :: int

text \<open>
  A value for \<^verbatim>\<open>VARCHAR(n)\<close>: a string holding the code unit 0 is refused; one longer
  than \<open>n\<close> is refused unless what exceeds \<open>n\<close> is spaces, which are cut off.
\<close>

definition varchar :: "nat \<Rightarrow> string \<Rightarrow> string option" where
  "varchar n v =
     (if CHR 0x00 \<in> set v then None
      else if length v \<le> n then Some v
      else if list_all (\<lambda>c. c = CHR '' '') (drop n v) then Some (take n v)
      else None)"

text \<open>
  The row the insert stores, or \<open>None\<close> when the server refuses it: a value that does
  not fit its column (\<^verbatim>\<open>VARCHAR(255)\<close>, \<^verbatim>\<open>NUMERIC(10, 2)\<close>, \<^verbatim>\<open>VARCHAR(50)\<close>) or
  an id the table already has (\<^verbatim>\<open>PRIMARY KEY\<close>).
\<close>

definition insert_row ::
  "insert_env \<Rightarrow> string \<Rightarrow> jsnum \<Rightarrow> string \<Rightarrow> expense list \<Rightarrow> expense option" where
  "insert_row env name x c table =
     (case (varchar 255 name, numeric_in env x, varchar 50 c) of
        (Some item, Some hundredths, Some cat) \<Rightarrow>
          if 10 ^ 10 \<le> hundredths \<or> next_id env \<in> set (map row_id table) then None
          else Some \<lparr>row_id = next_id env, row_item_name = item, row_amount = hundredths,
                      row_category = Some cat, row_created_at = current_timestamp env\<rparr>
      | _ \<Rightarrow> None)"

text \<open>
  The insert as a pool: \<^verbatim>\<open>RETURNING *\<close> gives the stored row back. Every other
  statement goes to \<open>fallback\<close>.
\<close>

fun inserting :: "insert_env \<Rightarrow> expense list pool \<Rightarrow> expense list pool" where
  "inserting env fallback (sql, [JStr name, JNum x, JStr c]) table =
     (if sql = ''INSERT INTO expenses (item_name, amount, category) VALUES ($1, $2, $3) RETURNING *''
      then
        (case insert_row env name x c table of
           None \<Rightarrow> (Rejects, table)
         | Some r \<Rightarrow> (Rows [row_object r], table @ [r]))
      else fallback (sql, [JStr name, JNum x, JStr c]) table)"
| "inserting env fallback stmt table = fallback stmt table"

declare inserting.simps [simp del]

text \<open>The database on all the statements of the four handlers.\<close>

definition database :: "insert_env \<Rightarrow> expense list pool \<Rightarrow> expense list pool" where
  "database env fallback = pg (inserting env fallback)"

subsection \<open>Sample pools and a sample table\<close>

text \<open>
  A pool whose server cannot be reached, and a pool that answers every statement with
  the same rows; the state of each counts nothing but the statements answered.
\<close>

definition offline :: "nat pool" where
  "offline stmt s = (Rejects, s)"

definition answering :: "jsval list \<Rightarrow> nat pool" where
  "answering rows stmt s = (Rows rows, Suc s)"

text \<open>A request body with the three properties the create handler reads.\<close>

definition create_request :: "jsval \<Rightarrow> jsval \<Rightarrow> jsval \<Rightarrow> jsval" where
  "create_request itemName amount category =
     JObj [(''itemName'', itemName), (''amount'', amount), (''category'', category)]"

text \<open>
  The first two rows of the sample data in the closing comment of \<^verbatim>\<open>init.sql\<close>, with
  a category each.
\<close>

definition lunch :: expense where
  "lunch = \<lparr>row_id = 1, row_item_name = ''Lunch at cafeteria'', row_amount = 2550,
            row_category = Some ''Food'', row_created_at = 100\<rparr>"

definition bus_fare :: expense where
  "bus_fare = \<lparr>row_id = 2, row_item_name = ''Bus fare'', row_amount = 500,
               row_category = Some ''Transport'', row_created_at = 200\<rparr>"

definition sample_table :: "expense list" where
  "sample_table = [lunch, bus_fare]"

definition unsupported :: "expense list pool" where
  "unsupported stmt table = (Rejects, table)"

text \<open>
  A sample environment of the insert: the next id is 3, the time 300, and a number
  that is finite and not negative is read to the nearest hundredth.
\<close>

definition sample_env :: insert_env where
  "sample_env =
     \<lparr>numeric_in = (\<lambda>x. case x of
                           Fin q \<Rightarrow> if 0 \<le> q then Some (nat \<lfloor>q * 100 + 1 / 2\<rfloor>) else None
                         | _ \<Rightarrow> None),
      next_id = 3, current_timestamp = 300\<rparr>"

section \<open>Facts about the built-ins\<close>

lemma trim_Nil: "trim [] = []"
  by (simp add: trim_def)

lemma get_prop_create_request:
  "get_prop (create_request i a c) ''itemName'' = Some i"
  "get_prop (create_request i a c) ''amount'' = Some a"
  "get_prop (create_request i a c) ''category'' = Some c"
  by (simp_all add: create_request_def)

lemma parseFloat_JNum: "parseFloat (JNum x) = Some x"
  by (simp add: parseFloat_def)

lemma trim_samples:
  "trim ''Lunch'' = ''Lunch''"
  "trim ''Snack'' = ''Snack''"
  "trim ''Bus fare'' = ''Bus fare''"
  "trim ''Free sample'' = ''Free sample''"
  "trim ''Coffee'' = ''Coffee''"
  "trim ''  Coffee  '' = ''Coffee''"
  "trim ''   '' = []"
  by (simp_all add: trim_def is_space_def)

lemma pow2_pos: "0 < pow2 e"
  by (simp add: pow2_def)

lemma round_half_even_nonneg: "0 \<le> x \<Longrightarrow> 0 \<le> round_half_even x"
  by (auto simp: round_half_even_def Let_def)

lemma to_double_nonpos:
  assumes "q \<le> 0"
  shows "js_le (to_double q) (Fin 0)"
proof (cases "q = 0")
  case True
  then show ?thesis by (simp add: to_double_def)
next
  case False
  with assms have neg: "q < 0" by simp
  define u where "u = pow2 (max (binade \<bar>q\<bar>) (- 1022) - 52)"
  have "0 < u" unfolding u_def by (rule pow2_pos)
  then have "0 \<le> \<bar>q\<bar> / u" by simp
  then have "0 \<le> round_half_even (\<bar>q\<bar> / u)" by (rule round_half_even_nonneg)
  with \<open>0 < u\<close> have "0 \<le> of_int (round_half_even (\<bar>q\<bar> / u)) * u" by simp
  with neg show ?thesis
    by (simp add: to_double_def Let_def u_def)
qed

text \<open>
  The rounding is the identity on the integers below \<open>2^53\<close>, gives a positive
  number or infinity from 1 on, and a finite number below \<open>2^1023\<close>.
\<close>

lemma pow2_powi: "pow2 e = 2 powi e"
  by (simp add: pow2_def power_int_def inverse_eq_divide power_one_over)

lemma pow2_add: "pow2 (a + b) = pow2 a * pow2 b"
  by (simp add: pow2_powi power_int_add)

lemma pow2_diff: "pow2 (a - b) = pow2 a / pow2 b"
  by (simp add: pow2_powi power_int_diff)

lemma pow2_mono: "a \<le> b \<Longrightarrow> pow2 a \<le> pow2 b"
  by (simp add: pow2_powi power_int_increasing)

lemma pow2_less_cancel: "pow2 a < pow2 b \<Longrightarrow> a < b"
  using pow2_mono [of b a] by (cases "a < b") auto

lemma pow2_nat: "pow2 (int k) = 2 ^ k"
  by (simp add: pow2_def)

lemma bit_length_bounds:
  "0 < n \<Longrightarrow> 2 ^ (bit_length n - 1) \<le> n \<and> n < 2 ^ bit_length n"
proof (induction n rule: bit_length.induct)
  case (1 n)
  show ?case
  proof (cases "n div 2 = 0")
    case True
    with "1.prems" have "n = 1" by presburger
    then show ?thesis by (simp add: bit_length.simps)
  next
    case False
    with "1.prems" have pos: "0 < n div 2" by presburger
    define k where "k = bit_length (n div 2)"
    from "1.IH" "1.prems" pos have ih: "2 ^ (k - 1) \<le> n div 2 \<and> n div 2 < 2 ^ k"
      by (simp add: k_def)
    have k: "0 < k"
      using pos by (simp add: k_def bit_length.simps [of "n div 2"])
    have bl: "bit_length n = Suc k"
      using "1.prems" by (simp add: k_def bit_length.simps [of n])
    from k have "(2::int) ^ k = 2 * 2 ^ (k - 1)"
      by (cases k) simp_all
    with ih have lo: "2 ^ k \<le> 2 * (n div 2)" by simp
    from ih have hi: "2 * (n div 2) + 1 < 2 * 2 ^ k" by simp
    have "2 * (n div 2) \<le> n" "n \<le> 2 * (n div 2) + 1" by presburger+
    with lo hi show ?thesis by (simp add: bl)
  qed
qed

lemma bit_length_pos: "0 < n \<Longrightarrow> 0 < bit_length n"
  by (simp add: bit_length.simps [of n])

lemma binade_bounds:
  assumes "0 < q"
  shows "pow2 (binade q) \<le> q \<and> q < pow2 (binade q + 1)"
proof -
  obtain n d where nd: "quotient_of q = (n, d)" by (cases "quotient_of q")
  then have d: "0 < d" by (rule quotient_of_denom_pos)
  from nd have q: "q = of_int n / of_int d" by (rule quotient_of_div)
  with assms d have n: "0 < n" by (simp add: zero_less_divide_iff)
  define bn where "bn = bit_length n"
  define bd where "bd = bit_length d"
  have bn: "0 < bn" "2 ^ (bn - 1) \<le> n" "n < 2 ^ bn"
    using bit_length_bounds [OF n] bit_length_pos [OF n] by (simp_all add: bn_def)
  have bd: "0 < bd" "2 ^ (bd - 1) \<le> d" "d < 2 ^ bd"
    using bit_length_bounds [OF d] bit_length_pos [OF d] by (simp_all add: bd_def)
  have rn: "(2::rat) ^ (bn - 1) \<le> of_int n" "(of_int n :: rat) < 2 ^ bn"
    using bn(2,3) by (metis of_int_le_iff of_int_numeral of_int_power, metis of_int_less_iff of_int_numeral of_int_power)
  have rd: "(2::rat) ^ (bd - 1) \<le> of_int d" "(of_int d :: rat) < 2 ^ bd"
    using bd(2,3) by (metis of_int_le_iff of_int_numeral of_int_power, metis of_int_less_iff of_int_numeral of_int_power)
  have dpos: "(0::rat) < of_int d" using d by simp
  define e0 where "e0 = int bn - int bd"
  have lower: "pow2 (e0 - 1) \<le> q"
  proof -
    have "pow2 (e0 - 1) = pow2 (int (bn - 1)) / pow2 (int bd)"
      using bn(1) by (simp add: e0_def pow2_diff [symmetric] of_nat_diff algebra_simps)
    also have "\<dots> = 2 ^ (bn - 1) / 2 ^ bd" by (simp add: pow2_nat)
    also have "\<dots> \<le> of_int n / of_int d"
      using rn(1) rd(2) dpos n by (intro frac_le) simp_all
    finally show ?thesis by (simp add: q)
  qed
  have upper: "q < pow2 (e0 + 1)"
  proof -
    have "of_int n / of_int d < (2::rat) ^ bn / 2 ^ (bd - 1)"
      using rn(2) rd(1) dpos n by (intro frac_less) simp_all
    also have "\<dots> = pow2 (int bn) / pow2 (int (bd - 1))" by (simp add: pow2_nat)
    also have "\<dots> = pow2 (e0 + 1)"
      using bd(1) by (simp add: e0_def pow2_diff [symmetric] of_nat_diff algebra_simps)
    finally show ?thesis by (simp add: q)
  qed
  have b: "binade q = (if pow2 e0 \<le> q then e0 else e0 - 1)"
    by (simp add: binade_def nd e0_def bn_def bd_def)
  show ?thesis
  proof (cases "pow2 e0 \<le> q")
    case True
    with upper b show ?thesis by simp
  next
    case False
    with lower b show ?thesis by simp
  qed
qed

lemma round_half_even_of_int: "round_half_even (of_int k) = k"
  by (simp add: round_half_even_def)

lemma round_half_even_ge: "\<lfloor>x\<rfloor> \<le> round_half_even x"
  by (simp add: round_half_even_def Let_def)

lemma round_half_even_le: "of_int (round_half_even x) \<le> x + 1"
proof -
  have "round_half_even x \<le> \<lfloor>x\<rfloor> + 1"
    by (simp add: round_half_even_def Let_def)
  then have "(of_int (round_half_even x) :: rat) \<le> of_int (\<lfloor>x\<rfloor> + 1)"
    by (simp only: of_int_le_iff)
  then have a: "(of_int (round_half_even x) :: rat) \<le> of_int \<lfloor>x\<rfloor> + 1"
    by simp
  have b: "(of_int \<lfloor>x\<rfloor> :: rat) \<le> x" by (rule of_int_floor_le)
  from a b show ?thesis by (rule order_trans [OF _ add_right_mono])
qed

lemma binade_nonneg:
  assumes "1 \<le> q"
  shows "0 \<le> binade q"
proof -
  from assms have "0 < q" by simp
  from binade_bounds [OF this] assms have "pow2 0 < pow2 (binade q + 1)"
    by (simp add: pow2_def)
  then have "0 < binade q + 1" by (rule pow2_less_cancel)
  then show ?thesis by simp
qed

lemma to_double_positive:
  assumes "1 \<le> q"
  shows "to_double q = PosInf \<or> (\<exists>m. to_double q = Fin m \<and> 0 < m)"
proof -
  from assms have q: "0 < q" by simp
  define e where "e = binade q"
  define u where "u = pow2 (max e (- 1022) - 52)"
  define m where "m = of_int (round_half_even (q / u)) * u"
  have e: "0 \<le> e" unfolding e_def by (rule binade_nonneg [OF assms])
  then have u: "u = pow2 (e - 52)" by (simp add: u_def max_def)
  have upos: "0 < u" unfolding u_def by (rule pow2_pos)
  have "pow2 e \<le> q" using binade_bounds [OF q] by (simp add: e_def)
  then have "pow2 e / u \<le> q / u" using upos by (simp add: divide_right_mono)
  moreover have "pow2 e / u = pow2 52" by (simp add: u pow2_diff pow2_pos [THEN less_imp_neq, symmetric])
  ultimately have "1 \<le> q / u" by (simp add: pow2_def)
  then have "1 \<le> \<lfloor>q / u\<rfloor>" by simp
  with round_half_even_ge [of "q / u"] have "1 \<le> round_half_even (q / u)" by linarith
  with upos have mpos: "0 < m" by (simp add: m_def)
  have "to_double q = (if pow2 1024 \<le> m then PosInf else Fin m)"
    using q by (simp add: to_double_def Let_def e_def u_def m_def)
  with mpos show ?thesis by auto
qed

lemma to_double_finite:
  assumes "0 \<le> q" and "q < pow2 1023"
  shows "\<exists>m. to_double q = Fin m \<and> 0 \<le> m"
proof (cases "q = 0")
  case True
  then show ?thesis by (simp add: to_double_def)
next
  case False
  with assms have q: "0 < q" by simp
  define e where "e = binade q"
  define u where "u = pow2 (max e (- 1022) - 52)"
  define m where "m = of_int (round_half_even (q / u)) * u"
  have upos: "0 < u" unfolding u_def by (rule pow2_pos)
  have "pow2 e \<le> q" using binade_bounds [OF q] by (simp add: e_def)
  with assms(2) have "pow2 e < pow2 1023" by simp
  then have "e < 1023" by (rule pow2_less_cancel)
  then have "max e (- 1022) - 52 \<le> 1023" by simp
  then have u: "u \<le> pow2 1023" unfolding u_def by (rule pow2_mono)
  have "m \<le> (q / u + 1) * u"
    unfolding m_def using round_half_even_le [of "q / u"] upos by (simp add: mult_right_mono)
  also have "\<dots> = q + u" using upos by (simp add: algebra_simps)
  also have "\<dots> < pow2 1023 + pow2 1023" using assms(2) u by simp
  also have "\<dots> = pow2 1024" using pow2_add [of 1023 1] by (simp add: pow2_def)
  finally have small: "m < pow2 1024" .
  have "0 \<le> \<lfloor>q / u\<rfloor>" using q upos by simp
  with round_half_even_ge [of "q / u"] have "0 \<le> round_half_even (q / u)" by linarith
  with upos have "0 \<le> m" by (simp add: m_def)
  moreover have "to_double q = (if pow2 1024 \<le> m then PosInf else Fin m)"
    using q by (simp add: to_double_def Let_def e_def u_def m_def)
  ultimately show ?thesis using small by simp
qed

lemma to_double_exact:
  assumes "0 < n" and "n < 2 ^ 53"
  shows "to_double (of_int n) = Fin (of_int n)"
proof -
  define q :: rat where "q = of_int n"
  from assms have q: "0 < q" "1 \<le> q" by (simp_all add: q_def)
  define e where "e = binade q"
  define u where "u = pow2 (max e (- 1022) - 52)"
  define m where "m = of_int (round_half_even (q / u)) * u"
  have e0: "0 \<le> e" unfolding e_def by (rule binade_nonneg [OF q(2)])
  have "q < 2 ^ 53"
    using assms(2) unfolding q_def by (metis of_int_less_iff of_int_numeral of_int_power)
  then have "q < pow2 53" by (simp add: pow2_def)
  moreover have "pow2 e \<le> q" using binade_bounds [OF q(1)] by (simp add: e_def)
  ultimately have "pow2 e < pow2 53" by simp
  then have e53: "e < 53" by (rule pow2_less_cancel)
  from e0 have u: "u = pow2 (e - 52)" by (simp add: u_def max_def)
  define k where "k = nat (52 - e)"
  from e53 have uk: "u = 1 / 2 ^ k"
    by (simp add: u pow2_def k_def)
  have "q / u = of_int (n * 2 ^ k)" by (simp add: uk q_def)
  then have "round_half_even (q / u) = n * 2 ^ k"
    by (simp only: round_half_even_of_int)
  then have "m = q" by (simp add: m_def uk q_def)
  moreover have "to_double q = (if pow2 1024 \<le> m then PosInf else Fin m)"
    using q(1) by (simp add: to_double_def Let_def e_def u_def m_def)
  moreover have "q < pow2 1024"
    using \<open>q < pow2 53\<close> pow2_mono [of 53 1024] by simp
  ultimately show ?thesis by (simp add: q_def)
qed

lemma parseInt_rejects:
  assumes "\<not> (\<exists>n. parseInt_math ident = Some n \<and> 0 < n)"
  shows "isNaN (parseInt ident) \<or> js_le (parseInt ident) (Fin 0)"
proof (cases "parseInt_math ident")
  case None
  then show ?thesis by (simp add: parseInt_def)
next
  case (Some n)
  with assms have "n \<le> 0" by auto
  then have "(of_int n :: rat) \<le> 0" by simp
  then have "js_le (to_double (of_int n)) (Fin 0)" by (rule to_double_nonpos)
  with Some show ?thesis by (simp add: parseInt_def)
qed

lemma parseInt_math_samples:
  "parseInt_math ''0'' = Some 0"
  "parseInt_math ''-1'' = Some (- 1)"
  "parseInt_math ''abc'' = None"
  "parseInt_math ''1'' = Some 1"
  "parseInt_math ''999'' = Some 999"
  by (simp_all add: parseInt_math_def unsigned_int_math_def starts_with_def is_space_def
      is_digit_def digits_value_def digit_val_def)

lemma parseInt_accepts:
  assumes "parseInt_math ident = Some n" and "0 < n"
  shows "\<not> (isNaN (parseInt ident) \<or> js_le (parseInt ident) (Fin 0))"
proof -
  from assms(2) have "(1::rat) \<le> of_int n" by simp
  from to_double_positive [OF this] assms(1) show ?thesis
    by (auto simp: parseInt_def)
qed

lemma parseInt_exact:
  assumes "parseInt_math ident = Some n" and "0 < n" and "n \<le> 2147483647"
  shows "parseInt ident = Fin (of_int n)"
proof -
  from assms(3) have "n < 2 ^ 53" by simp
  from to_double_exact [OF assms(2) this] assms(1) show ?thesis
    by (simp add: parseInt_def)
qed

section \<open>Validation of the delete request\<close>

text \<open>
  The delete handler answers 400 (\<^verbatim>\<open>Invalid expense ID\<close>) and sends no statement to
  the pool for every path identifier in which \<^verbatim>\<open>parseInt\<close> reads no integer greater
  than 0: one that begins with no digit (\<^verbatim>\<open>abc\<close>), or whose leading integer is zero
  or negative. The store is left as it was.
\<close>

lemma delete_rejects_unread_id:
  assumes "\<not> (\<exists>n. parseInt_math ident = Some n \<and> 0 < n)"
  shows "delete_expense query ident s =
           \<lparr>sent = [\<lparr>status = 400,
                     payload = Json (JObj [(''error'', JStr ''Invalid expense ID'')])\<rparr>],
            threw = False, issued = [], store = s\<rparr>"
  using parseInt_rejects [OF assms]
  by (auto simp: delete_expense_def Let_def responds_def error_body_def)

text \<open>The identifiers \<^verbatim>\<open>0\<close>, \<^verbatim>\<open>-1\<close> and \<^verbatim>\<open>abc\<close>.\<close>

lemma delete_rejects_unread_id_samples:
  "parseInt_math ''0'' = Some 0 \<and> parseInt_math ''-1'' = Some (- 1)
   \<and> parseInt_math ''abc'' = None
   \<and> delete_expense offline ''0'' 0 =
        \<lparr>sent = [\<lparr>status = 400,
                  payload = Json (JObj [(''error'', JStr ''Invalid expense ID'')])\<rparr>],
         threw = False, issued = [], store = 0\<rparr>
   \<and> delete_expense offline ''-1'' 0 =
        \<lparr>sent = [\<lparr>status = 400,
                  payload = Json (JObj [(''error'', JStr ''Invalid expense ID'')])\<rparr>],
         threw = False, issued = [], store = 0\<rparr>
   \<and> delete_expense offline ''abc'' 0 =
        \<lparr>sent = [\<lparr>status = 400,
                  payload = Json (JObj [(''error'', JStr ''Invalid expense ID'')])\<rparr>],
         threw = False, issued = [], store = 0\<rparr>"
proof -
  have zero: "\<not> (\<exists>n. parseInt_math ''0'' = Some n \<and> 0 < n)"
    and negative: "\<not> (\<exists>n. parseInt_math ''-1'' = Some n \<and> 0 < n)"
    and word: "\<not> (\<exists>n. parseInt_math ''abc'' = Some n \<and> 0 < n)"
    by (simp_all add: parseInt_math_samples)
  show ?thesis
    using delete_rejects_unread_id [OF zero, of offline 0]
      delete_rejects_unread_id [OF negative, of offline 0]
      delete_rejects_unread_id [OF word, of offline 0]
    by (simp add: parseInt_math_samples)
qed

section \<open>Validation of the create request\<close>

text \<open>
  The create handler applies its checks in a fixed order and the first one
  that fails decides the response, whatever the later fields hold: (1) an item name
  that is falsy or a string empty after trimming gives the item-name error; (2) past
  that, an amount that is \<^verbatim>\<open>undefined\<close> or \<^verbatim>\<open>null\<close> gives \<^verbatim>\<open>Amount is required\<close>;
  (3) past that, an amount that parses to NaN or to a negative number gives
  \<^verbatim>\<open>Amount must be a positive number\<close>; (4) past that, the category is
  normalised and the insert is sent: no category is refused. None of the three
  refusals sends a statement. The two places where a check throws instead of
  answering keep the same order: \<^verbatim>\<open>itemName.trim()\<close> on a truthy value that is not a
  string, in check (1), and \<^verbatim>\<open>parseFloat\<close> on an amount with no string, in check (3).
\<close>

lemma create_checks_in_order:
  assumes "get_prop body ''itemName'' = Some itemName"
      and "get_prop body ''amount'' = Some amount"
      and "get_prop body ''category'' = Some category"
  shows "(\<not> truthy itemName \<or> (\<exists>n. itemName = JStr n \<and> trim n = []) \<longrightarrow>
            post_expenses query body s =
              responds 400 (error_body ''Item name is required and cannot be empty'') [] s)
       \<and> (\<forall>n. itemName = JStr n \<and> trim n \<noteq> [] \<and> (amount = JUndefined \<or> amount = JNull) \<longrightarrow>
            post_expenses query body s = responds 400 (error_body ''Amount is required'') [] s)
       \<and> (\<forall>n x. itemName = JStr n \<and> trim n \<noteq> [] \<and> amount \<noteq> JUndefined \<and> amount \<noteq> JNull
              \<and> parseFloat amount = Some x \<and> (isNaN x \<or> js_lt x (Fin 0)) \<longrightarrow>
            post_expenses query body s =
              responds 400 (error_body ''Amount must be a positive number'') [] s)
       \<and> (\<forall>n x. itemName = JStr n \<and> trim n \<noteq> [] \<and> amount \<noteq> JUndefined \<and> amount \<noteq> JNull
              \<and> parseFloat amount = Some x \<and> \<not> isNaN x \<and> \<not> js_lt x (Fin 0) \<longrightarrow>
            issued (post_expenses query body s) =
              [(insert_sql, [JStr (trim n), JNum x, expenseCategory category])])
       \<and> (truthy itemName \<and> call_trim itemName = None \<longrightarrow>
            post_expenses query body s = throws [] s)
       \<and> (\<forall>n. itemName = JStr n \<and> trim n \<noteq> [] \<and> amount \<noteq> JUndefined \<and> amount \<noteq> JNull
              \<and> parseFloat amount = None \<longrightarrow>
            post_expenses query body s = throws [] s)"
  using assms
  by (auto simp: post_expenses_def responds_def Let_def trim_Nil split: prod.splits qresult.splits)

text \<open>
  A request with neither name nor amount and one with a blank name and a negative
  amount fail with the item-name error; then one request for each later check.
\<close>

lemma create_checks_in_order_samples:
  "post_expenses offline (create_request JUndefined JUndefined JUndefined) 0 =
     responds 400 (error_body ''Item name is required and cannot be empty'') [] 0
 \<and> post_expenses offline (create_request (JStr ''   '') (JNum (Fin (- 5))) JUndefined) 0 =
     responds 400 (error_body ''Item name is required and cannot be empty'') [] 0
 \<and> post_expenses offline (create_request (JStr ''Snack'') JUndefined (JStr ''Food'')) 0 =
     responds 400 (error_body ''Amount is required'') [] 0
 \<and> post_expenses offline (create_request (JStr ''Bus fare'') (JNum (Fin (- 5))) (JNum (Fin 7))) 0 =
     responds 400 (error_body ''Amount must be a positive number'') [] 0
 \<and> issued (post_expenses offline (create_request (JStr ''Free sample'') (JNum (Fin 0)) (JNum (Fin 7))) 0) =
     [(insert_sql, [JStr ''Free sample'', JNum (Fin 0), JStr ''Other''])]"
  using
    create_checks_in_order [of "create_request JUndefined JUndefined JUndefined" JUndefined JUndefined JUndefined offline 0, OF get_prop_create_request]
    create_checks_in_order [of "create_request (JStr ''   '') (JNum (Fin (- 5))) JUndefined" "JStr ''   ''" "JNum (Fin (- 5))" JUndefined offline 0, OF get_prop_create_request]
    create_checks_in_order [of "create_request (JStr ''Snack'') JUndefined (JStr ''Food'')" "JStr ''Snack''" JUndefined "JStr ''Food''" offline 0, OF get_prop_create_request]
    create_checks_in_order [of "create_request (JStr ''Bus fare'') (JNum (Fin (- 5))) (JNum (Fin 7))" "JStr ''Bus fare''" "JNum (Fin (- 5))" "JNum (Fin 7)" offline 0, OF get_prop_create_request]
    create_checks_in_order [of "create_request (JStr ''Free sample'') (JNum (Fin 0)) (JNum (Fin 7))" "JStr ''Free sample''" "JNum (Fin 0)" "JNum (Fin 7)" offline 0, OF get_prop_create_request]
  by (simp add: trim_samples parseFloat_JNum expenseCategory_def)

section \<open>Category normalisation on the create path\<close>

lemma expenseCategory_cases:
  "expenseCategory category =
     (if category \<in> JStr ` set validCategories then category else JStr ''Other'')"
  by (cases category) (auto simp: expenseCategory_def validCategories_def)

lemma expenseCategory_valid: "expenseCategory category \<in> JStr ` set validCategories"
  by (cases category) (auto simp: expenseCategory_def validCategories_def)

lemma post_expenses_issued:
  assumes "issued (post_expenses query body s) \<noteq> []"
  shows "\<exists>itemName amount category name x.
           get_prop body ''itemName'' = Some itemName \<and> call_trim itemName = Some name
         \<and> get_prop body ''amount'' = Some amount \<and> parseFloat amount = Some x
         \<and> get_prop body ''category'' = Some category
         \<and> issued (post_expenses query body s) =
              [(insert_sql, [JStr name, JNum x, expenseCategory category])]"
  using assms
  by (auto simp: post_expenses_def responds_def throws_def Let_def
      split: prod.splits qresult.splits option.splits if_splits)

lemma post_expenses_201_issued:
  assumes "map status (sent (post_expenses query body s)) = [201]"
  shows "issued (post_expenses query body s) \<noteq> []"
  using assms
  by (auto simp: post_expenses_def responds_def throws_def Let_def
      split: prod.splits qresult.splits option.splits if_splits)

lemma post_expenses_sample:
  "name \<noteq> [] \<Longrightarrow> trim name = name \<Longrightarrow> \<not> js_lt x (Fin 0) \<Longrightarrow> \<not> isNaN x \<Longrightarrow>
   post_expenses (answering rows) (create_request (JStr name) (JNum x) category) s =
     responds 201
       (JObj [(''message'', JStr ''Expense added successfully''), (''expense'', first_row rows)])
       [(insert_sql, [JStr name, JNum x, expenseCategory category])] (Suc s)"
  by (simp add: post_expenses_def get_prop_create_request parseFloat_JNum answering_def Let_def)

text \<open>
  With every pool: a create request answered with 201 has sent the insert, and the
  category bound to it (the third parameter) is a string of the fixed set: the
  supplied category unchanged when that is one of the six strings, and exactly
  \<^verbatim>\<open>Other\<close> when it is absent or anything else.
\<close>

lemma create_binds_fixed_category:
  assumes "map status (sent (post_expenses query body s)) = [201]"
  shows "\<exists>name x category c.
           get_prop body ''category'' = Some category
         \<and> issued (post_expenses query body s) = [(insert_sql, [JStr name, JNum x, JStr c])]
         \<and> c \<in> set validCategories
         \<and> JStr c = (if category \<in> JStr ` set validCategories then category else JStr ''Other'')"
proof -
  from post_expenses_issued [OF post_expenses_201_issued [OF assms]]
  obtain name x category where
    c: "get_prop body ''category'' = Some category" and
    i: "issued (post_expenses query body s) =
          [(insert_sql, [JStr name, JNum x, expenseCategory category])]"
    by blast
  from expenseCategory_valid obtain c where
    v: "c \<in> set validCategories" and e: "expenseCategory category = JStr c"
    by (metis imageE)
  from e have "JStr c = (if category \<in> JStr ` set validCategories then category else JStr ''Other'')"
    by (simp add: expenseCategory_cases)
  with c i v e show ?thesis by auto
qed

text \<open>An unrecognised category, an absent one and a member of the set.\<close>

lemma create_binds_fixed_category_samples:
  "map status (sent (post_expenses (answering []) (create_request (JStr ''Lunch'') (JNum (Fin (51 / 2))) (JStr ''Travel'')) 0)) = [201]
 \<and> (\<exists>name x category c.
       get_prop (create_request (JStr ''Lunch'') (JNum (Fin (51 / 2))) (JStr ''Travel'')) ''category'' = Some category
     \<and> issued (post_expenses (answering []) (create_request (JStr ''Lunch'') (JNum (Fin (51 / 2))) (JStr ''Travel'')) 0) =
         [(insert_sql, [JStr name, JNum x, JStr c])]
     \<and> c \<in> set validCategories
     \<and> JStr c = (if category \<in> JStr ` set validCategories then category else JStr ''Other''))
 \<and> issued (post_expenses (answering []) (create_request (JStr ''Lunch'') (JNum (Fin (51 / 2))) (JStr ''Travel'')) 0) =
       [(insert_sql, [JStr ''Lunch'', JNum (Fin (51 / 2)), JStr ''Other''])]
 \<and> issued (post_expenses (answering []) (create_request (JStr ''Lunch'') (JNum (Fin (51 / 2))) JUndefined) 0) =
       [(insert_sql, [JStr ''Lunch'', JNum (Fin (51 / 2)), JStr ''Other''])]
 \<and> issued (post_expenses (answering []) (create_request (JStr ''Lunch'') (JNum (Fin (51 / 2))) (JStr ''Food'')) 0) =
       [(insert_sql, [JStr ''Lunch'', JNum (Fin (51 / 2)), JStr ''Food''])]"
proof -
  have ok: "map status (sent (post_expenses (answering []) (create_request (JStr ''Lunch'') (JNum (Fin (51 / 2))) (JStr ''Travel'')) 0)) = [201]"
    by (simp add: post_expenses_sample trim_samples responds_def)
  show ?thesis
    using ok create_binds_fixed_category [OF ok]
    by (simp add: post_expenses_sample trim_samples responds_def expenseCategory_def validCategories_def)
qed

text \<open>
  Claim C9. Membership in the fixed set is exact string equality, so it is
  case-sensitive: a category string that is not literally one of the six labels, such
  as \<^verbatim>\<open>food\<close> or \<^verbatim>\<open>FOOD\<close>, is normalised to \<^verbatim>\<open>Other\<close>, and a create request
  carrying it sends the insert with \<^verbatim>\<open>Other\<close>.
\<close>

theorem category_match_is_case_sensitive:
  assumes "c \<notin> set validCategories"
  shows "expenseCategory (JStr c) = JStr ''Other''
       \<and> (get_prop body ''category'' = Some (JStr c) \<and> issued (post_expenses query body s) \<noteq> [] \<longrightarrow>
            (\<exists>name x. issued (post_expenses query body s) =
               [(insert_sql, [JStr name, JNum x, JStr ''Other''])]))"
proof -
  from assms have other: "expenseCategory (JStr c) = JStr ''Other''"
    by (auto simp: expenseCategory_cases)
  show ?thesis
  proof (intro conjI impI)
    show "expenseCategory (JStr c) = JStr ''Other''" by (rule other)
  next
    assume a: "get_prop body ''category'' = Some (JStr c) \<and> issued (post_expenses query body s) \<noteq> []"
    with post_expenses_issued [of query body s] other
    show "\<exists>name x. issued (post_expenses query body s) =
            [(insert_sql, [JStr name, JNum x, JStr ''Other''])]"
      by auto
  qed
qed

text \<open>The two casings of the claim, beside the exact label.\<close>

theorem category_match_is_case_sensitive_witness:
  "''food'' \<notin> set validCategories \<and> ''FOOD'' \<notin> set validCategories
 \<and> expenseCategory (JStr ''food'') = JStr ''Other''
 \<and> expenseCategory (JStr ''FOOD'') = JStr ''Other''
 \<and> expenseCategory (JStr ''Food'') = JStr ''Food''
 \<and> issued (post_expenses (answering []) (create_request (JStr ''Lunch'') (JNum (Fin (51 / 2))) (JStr ''food'')) 0) =
      [(insert_sql, [JStr ''Lunch'', JNum (Fin (51 / 2)), JStr ''Other''])]"
proof -
  have lower: "''food'' \<notin> set validCategories" and upper: "''FOOD'' \<notin> set validCategories"
    by (simp_all add: validCategories_def)
  have exact: "expenseCategory (JStr ''Food'') = JStr ''Food''"
    by (simp add: expenseCategory_def validCategories_def)
  have sample: "issued (post_expenses (answering []) (create_request (JStr ''Lunch'') (JNum (Fin (51 / 2))) (JStr ''food'')) 0) =
      [(insert_sql, [JStr ''Lunch'', JNum (Fin (51 / 2)), expenseCategory (JStr ''food'')])]"
    by (simp add: post_expenses_sample trim_samples responds_def)
  show ?thesis
    using lower upper exact sample
      category_match_is_case_sensitive [OF lower, THEN conjunct1]
      category_match_is_case_sensitive [OF upper, THEN conjunct1]
    by simp
qed

section \<open>The amount check\<close>

lemma parseFloat_Infinity: "parseFloat (JStr ''Infinity'') = Some PosInf"
  by (simp add: parseFloat_def parseFloat_string_def str_decimal_def str_unsigned_decimal_def
      starts_with_def is_space_def)

text \<open>
  Claim C1 says that an amount which does not parse to a finite number at least 0 is
  refused with status 400 before any statement is sent. The check is
  \<^verbatim>\<open>isNaN(numAmount) || numAmount < 0\<close>: it lets positive infinity through. A request
  whose amount is the string \<^verbatim>\<open>Infinity\<close>, or a JSON number too large for a
  double (which the body parser reads as infinity), passes validation and the insert
  is sent with the amount \<^verbatim>\<open>Infinity\<close>.
\<close>

theorem create_accepts_infinite_amount:
  "issued (post_expenses query (create_request (JStr ''Coffee'') (JStr ''Infinity'') JUndefined) s) =
     [(insert_sql, [JStr ''Coffee'', JNum PosInf, JStr ''Other''])]
 \<and> issued (post_expenses query (create_request (JStr ''Coffee'') (JNum PosInf) JUndefined) s) =
     [(insert_sql, [JStr ''Coffee'', JNum PosInf, JStr ''Other''])]"
  by (simp add: post_expenses_def get_prop_create_request trim_samples parseFloat_Infinity
      parseFloat_JNum expenseCategory_def responds_def Let_def split: prod.splits qresult.splits)

text \<open>
  Claim C5 says that the four checks of the create handler run in a fixed order, the
  third refusing an amount that is not a finite non-negative number, and that a
  request with no item name gets the item-name error. The order is the code's
  (\<open>create_checks_in_order\<close>), but the third check is
  \<^verbatim>\<open>isNaN(numAmount) || numAmount < 0\<close>: the amount \<^verbatim>\<open>Infinity\<close> passes it, the
  category is normalised and the insert is sent, which is the defect of claim C1.
  And a request with no body fails before the first check: destructuring
  \<^verbatim>\<open>undefined\<close> throws, and the answer is the 500 error page, not the item-name
  error.
\<close>

theorem create_amount_check_passes_infinity:
  "post_expenses (answering rows)
     (create_request (JStr ''Coffee'') (JStr ''Infinity'') (JStr ''Food'')) s =
     responds 201
       (JObj [(''message'', JStr ''Expense added successfully''), (''expense'', first_row rows)])
       [(insert_sql, [JStr ''Coffee'', JNum PosInf, JStr ''Food''])] (Suc s)
 \<and> sent (express (post_expenses query JUndefined s')) = [\<lparr>status = 500, payload = ErrorPage\<rparr>]"
  by (simp add: post_expenses_def get_prop_create_request trim_samples parseFloat_Infinity
      expenseCategory_def validCategories_def answering_def express_def throws_def Let_def)

section \<open>One response for every request\<close>









section \<open>The decimal text of a numeric reads back\<close>

lemma of_char_digit_char: "d < 10 \<Longrightarrow> (of_char (digit_char d) :: nat) = 48 + d"
  by (simp add: digit_char_def)

lemma is_digit_digit_char: "d < 10 \<Longrightarrow> is_digit (digit_char d)"
  by (simp add: is_digit_def of_char_digit_char)

lemma digit_val_digit_char: "d < 10 \<Longrightarrow> digit_val (digit_char d) = int d"
proof -
  assume d: "d < 10"
  have "(of_char (digit_char d) :: int) = int (of_char (digit_char d))"
    by (simp add: of_char_def)
  with d show ?thesis by (simp add: digit_val_def of_char_digit_char)
qed

lemma decimal_digits_all: "list_all is_digit (decimal_digits m)"
proof (induction m rule: decimal_digits.induct)
  case (1 n)
  show ?case
  proof (cases "n < 10")
    case True
    then show ?thesis by (simp add: decimal_digits.simps [of n] is_digit_digit_char)
  next
    case False
    with 1 show ?thesis by (simp add: decimal_digits.simps [of n] is_digit_digit_char)
  qed
qed

lemma decimal_digits_nonempty: "decimal_digits m \<noteq> []"
  by (subst decimal_digits.simps) simp

lemma digits_value_snoc: "digits_value (ds @ [c]) = 10 * digits_value ds + digit_val c"
  by (simp add: digits_value_def)

lemma int_div_mod_10: "10 * int (n div 10) + int (n mod 10) = int n"
proof -
  have "int n = int (10 * (n div 10) + n mod 10)" by simp
  also have "\<dots> = 10 * int (n div 10) + int (n mod 10)"
    by (simp only: of_nat_add of_nat_mult of_nat_numeral)
  finally show ?thesis by simp
qed

lemma digits_value_decimal_digits: "digits_value (decimal_digits m) = int m"
proof (induction m rule: decimal_digits.induct)
  case (1 n)
  show ?case
  proof (cases "n < 10")
    case True
    then show ?thesis
      by (simp add: decimal_digits.simps [of n] digits_value_def digit_val_digit_char)
  next
    case False
    with 1 have "digits_value (decimal_digits (n div 10)) = int (n div 10)" by simp
    moreover have "10 * int (n div 10) + int (n mod 10) = int n"
      by (rule int_div_mod_10)
    ultimately show ?thesis using False
      by (simp add: decimal_digits.simps [of n] digits_value_snoc digit_val_digit_char)
  qed
qed

lemma takeWhile_digits_then:
  assumes "list_all is_digit ds" and "\<not> is_digit c"
  shows "takeWhile is_digit (ds @ c # r) = ds" and "dropWhile is_digit (ds @ c # r) = c # r"
  using assms by (induction ds) auto

lemma not_is_digit_dot: "\<not> is_digit CHR ''.''"
  by (simp add: is_digit_def)

lemma numeric_value:
  "100 * int (n div 100) + 10 * int (n div 10 mod 10) + int (n mod 10) = int n"
proof -
  have "int (n div 10) = 10 * int (n div 10 div 10) + int (n div 10 mod 10)"
    using int_div_mod_10 [of "n div 10"] by simp
  moreover have "n div 10 div 10 = n div 100"
    by (simp add: div_mult2_eq [symmetric])
  ultimately have "int (n div 10) = 10 * int (n div 100) + int (n div 10 mod 10)" by simp
  with int_div_mod_10 [of n] show ?thesis by simp
qed

lemma str_unsigned_decimal_numeric_text:
  "str_unsigned_decimal (numeric_text n) = to_double (of_nat n / 100)"
proof -
  define D where "D = decimal_digits (n div 100)"
  define a where "a = digit_char (n div 10 mod 10)"
  define b where "b = digit_char (n mod 10)"
  have D: "list_all is_digit D" "D \<noteq> []"
    by (simp_all add: D_def decimal_digits_all decimal_digits_nonempty)
  have ab: "is_digit a" "is_digit b"
    by (simp_all add: a_def b_def is_digit_digit_char)
  have shape: "numeric_text n = D @ CHR ''.'' # [a, b]"
    by (simp add: numeric_text_def D_def a_def b_def)
  from D obtain d D' where DD: "D = d # D'" "is_digit d"
    by (cases D) auto
  have noinf: "\<not> starts_with ''Infinity'' (numeric_text n)"
    using DD by (auto simp: shape starts_with_def is_digit_def)
  have ip: "takeWhile is_digit (numeric_text n) = D"
    and r1: "dropWhile is_digit (numeric_text n) = CHR ''.'' # [a, b]"
    using takeWhile_digits_then [OF D(1) not_is_digit_dot] by (simp_all add: shape)
  have fp: "takeWhile is_digit [a, b] = [a, b]" "dropWhile is_digit [a, b] = []"
    using ab by simp_all
  have "digits_value (D @ [a, b]) = 10 * (10 * digits_value D + digit_val a) + digit_val b"
    using digits_value_snoc [of "D @ [a]" b] digits_value_snoc [of D a] by simp
  also have "\<dots> = 100 * int (n div 100) + 10 * int (n div 10 mod 10) + int (n mod 10)"
    by (simp add: D_def a_def b_def digits_value_decimal_digits digit_val_digit_char)
  also have "\<dots> = int n" by (rule numeric_value)
  finally have v: "digits_value (D @ [a, b]) = int n" .
  have e: "exponent_part [] = 0" by (simp add: exponent_part_def)
  have p: "pow10 0 = 1" by (simp add: pow10_def)
  show ?thesis
    unfolding str_unsigned_decimal_def ip r1
    using noinf D(2) ab by (simp add: v e p)
qed

lemma parseFloat_numeric_text:
  "parseFloat (JStr (numeric_text n)) = Some (to_double (of_nat n / 100))"
proof -
  define D where "D = decimal_digits (n div 100)"
  have "list_all is_digit D" "D \<noteq> []"
    by (simp_all add: D_def decimal_digits_all decimal_digits_nonempty)
  then obtain d D' where DD: "D = d # D'" "is_digit d"
    by (cases D) auto
  have shape: "numeric_text n = d # D' @ CHR ''.'' # [digit_char (n div 10 mod 10), digit_char (n mod 10)]"
    using DD by (simp add: numeric_text_def D_def)
  have d: "\<not> is_space d" "d \<noteq> CHR ''+''" "d \<noteq> CHR ''-''"
    using DD(2) by (auto simp: is_digit_def is_space_def)
  have "parseFloat_string (numeric_text n) = str_unsigned_decimal (numeric_text n)"
    using d by (simp add: parseFloat_string_def str_decimal_def shape)
  then show ?thesis
    by (simp add: parseFloat_def str_unsigned_decimal_numeric_text)
qed

lemma parseFloat_zero: "parseFloat (JStr ''0'') = Some (Fin 0)"
  by (simp add: parseFloat_def parseFloat_string_def str_decimal_def str_unsigned_decimal_def
      starts_with_def is_space_def is_digit_def digits_value_def digit_val_def exponent_part_def
      pow10_def to_double_def)

lemma digit_char_samples:
  "digit_char 0 = CHR ''0''" "digit_char 1 = CHR ''1''" "digit_char 2 = CHR ''2''"
  "digit_char 3 = CHR ''3''" "digit_char 4 = CHR ''4''" "digit_char 5 = CHR ''5''"
  "digit_char 6 = CHR ''6''" "digit_char 7 = CHR ''7''" "digit_char 8 = CHR ''8''"
  "digit_char 9 = CHR ''9''"
  by code_simp+

lemma numeric_text_samples:
  "numeric_text 2550 = ''25.50''"
  "numeric_text 500 = ''5.00''"
  "numeric_text 3050 = ''30.50''"
  by (simp_all add: numeric_text_def decimal_digits.simps digit_char_samples)

lemma bit_length_samples:
  "bit_length 1 = 1" "bit_length 2 = 2" "bit_length 61 = 6" "bit_length 999 = 10"
  by (simp_all add: bit_length.simps)

lemma quotient_of_sample: "quotient_of (61 / 2) = (61, 2)"
  by code_simp

lemma to_double_samples:
  "to_double 1 = Fin 1"
  "to_double 999 = Fin 999"
  "to_double (61 / 2) = Fin (61 / 2)"
  by (simp_all add: to_double_def binade_def quotient_of_sample bit_length_samples pow2_def
      round_half_even_def Let_def)

lemma parseInt_samples:
  "parseInt ''1'' = Fin (of_int 1)"
  "parseInt ''999'' = Fin (of_int 999)"
  by (simp_all add: parseInt_def parseInt_math_samples to_double_samples)

section \<open>The stored and the returned category\<close>

lemma pg_passes_insert:
  "pg other (insert_sql, [JStr name, JNum x, JStr c]) table =
     other (insert_sql, [JStr name, JNum x, JStr c]) table"
  by (simp add: pg.simps)

lemma database_insert:
  "database env fallback (insert_sql, [JStr name, JNum x, JStr c]) table =
     (case insert_row env name x c table of
        None \<Rightarrow> (Rejects, table)
      | Some r \<Rightarrow> (Rows [row_object r], table @ [r]))"
  unfolding database_def pg_passes_insert
  by (simp add: inserting.simps insert_sql_def)

lemma varchar_valid: "c \<in> set validCategories \<Longrightarrow> varchar 50 c = Some c"
  by (auto simp: validCategories_def varchar_def)

lemma insert_row_category:
  assumes "insert_row env name x c table = Some r" and "c \<in> set validCategories"
  shows "row_category r = Some c"
  using assms
  by (auto simp: insert_row_def varchar_valid split: option.splits if_splits)

lemma get_prop_row_category:
  "row_category r = Some c \<Longrightarrow> get_prop (row_object r) ''category'' = Some (JStr c)"
  by (simp add: row_object_def)

lemma post_expenses_sends:
  assumes "issued (post_expenses query body s) = [stmt]"
  shows "post_expenses query body s =
     (case query stmt s of
        (Rows rows, s') \<Rightarrow>
          responds 201
            (JObj [(''message'', JStr ''Expense added successfully''),
                   (''expense'', first_row rows)])
            [stmt] s'
      | (Rejects, s') \<Rightarrow>
          responds 500 (error_body ''Failed to add expense to database'') [stmt] s')"
  using assms
  by (auto simp: post_expenses_def responds_def throws_def Let_def
      split: prod.splits qresult.splits option.splits if_splits)

text \<open>
  Claim C6. For every create request that the database answers with 201, the insert
  appended one row to the table and the response returns that row; its category,
  stored and returned, is a string of the fixed set \<^verbatim>\<open>Food\<close>, \<^verbatim>\<open>Transport\<close>,
  \<^verbatim>\<open>Entertainment\<close>, \<^verbatim>\<open>Shopping\<close>, \<^verbatim>\<open>Bills\<close>, \<^verbatim>\<open>Other\<close>, never null: the supplied
  category unchanged when that is one of the six strings, and exactly \<^verbatim>\<open>Other\<close> when
  it is absent or anything else.
\<close>

theorem create_category_in_fixed_set:
  assumes "map status (sent (post_expenses (database env fallback) body table)) = [201]"
  shows "\<exists>name x category c r.
           get_prop body ''category'' = Some category
         \<and> c \<in> set validCategories
         \<and> JStr c = (if category \<in> JStr ` set validCategories then category else JStr ''Other'')
         \<and> post_expenses (database env fallback) body table =
             responds 201
               (JObj [(''message'', JStr ''Expense added successfully''),
                      (''expense'', row_object r)])
               [(insert_sql, [JStr name, JNum x, JStr c])] (table @ [r])
         \<and> row_category r = Some c
         \<and> get_prop (row_object r) ''category'' = Some (JStr c)"
proof -
  let ?run = "post_expenses (database env fallback) body table"
  from create_binds_fixed_category [OF assms]
  obtain name x category c where
    cat: "get_prop body ''category'' = Some category" and
    i: "issued ?run = [(insert_sql, [JStr name, JNum x, JStr c])]" and
    v: "c \<in> set validCategories" and
    e: "JStr c = (if category \<in> JStr ` set validCategories then category else JStr ''Other'')"
    by blast
  note run = post_expenses_sends [OF i, unfolded database_insert]
  show ?thesis
  proof (cases "insert_row env name x c table")
    case None
    with run assms show ?thesis by (simp add: responds_def)
  next
    case (Some r)
    with run have "?run =
        responds 201
          (JObj [(''message'', JStr ''Expense added successfully''), (''expense'', row_object r)])
          [(insert_sql, [JStr name, JNum x, JStr c])] (table @ [r])"
      by (simp add: first_row_def)
    moreover from Some v have "row_category r = Some c" by (rule insert_row_category)
    moreover from this have "get_prop (row_object r) ''category'' = Some (JStr c)"
      by (rule get_prop_row_category)
    ultimately show ?thesis using cat v e by blast
  qed
qed

lemma floor_sample: "\<lfloor>(5101 / 2 :: rat)\<rfloor> = 2550"
  by (rule floor_unique) simp_all

lemma insert_row_sample:
  "insert_row sample_env ''Lunch'' (Fin (51 / 2)) ''Other'' sample_table =
     Some \<lparr>row_id = 3, row_item_name = ''Lunch'', row_amount = 2550,
           row_category = Some ''Other'', row_created_at = 300\<rparr>"
  by (simp add: insert_row_def varchar_def sample_env_def sample_table_def lunch_def bus_fare_def
      floor_sample)

lemma post_expenses_database_sample:
  "post_expenses (database sample_env unsupported)
     (create_request (JStr ''Lunch'') (JNum (Fin (51 / 2))) (JStr ''Travel'')) sample_table =
   responds 201
     (JObj [(''message'', JStr ''Expense added successfully''),
            (''expense'',
             JObj [(''id'', JNum (Fin 3)), (''item_name'', JStr ''Lunch''),
                   (''amount'', JStr ''25.50''), (''category'', JStr ''Other''),
                   (''created_at'', JDate 300)])])
     [(insert_sql, [JStr ''Lunch'', JNum (Fin (51 / 2)), JStr ''Other''])]
     (sample_table @
      [\<lparr>row_id = 3, row_item_name = ''Lunch'', row_amount = 2550,
        row_category = Some ''Other'', row_created_at = 300\<rparr>])"
  by (simp add: post_expenses_def get_prop_create_request trim_samples parseFloat_JNum
      expenseCategory_def validCategories_def database_insert insert_row_sample first_row_def
      row_object_def numeric_text_samples Let_def)

text \<open>
  The category \<^verbatim>\<open>Travel\<close>, not one of the six, on the sample table: the row stored and
  the row returned hold \<^verbatim>\<open>Other\<close>.
\<close>

theorem create_category_in_fixed_set_witness:
  "map status
     (sent (post_expenses (database sample_env unsupported)
              (create_request (JStr ''Lunch'') (JNum (Fin (51 / 2))) (JStr ''Travel''))
              sample_table)) = [201]
 \<and> post_expenses (database sample_env unsupported)
       (create_request (JStr ''Lunch'') (JNum (Fin (51 / 2))) (JStr ''Travel'')) sample_table =
     responds 201
       (JObj [(''message'', JStr ''Expense added successfully''),
              (''expense'',
               JObj [(''id'', JNum (Fin 3)), (''item_name'', JStr ''Lunch''),
                     (''amount'', JStr ''25.50''), (''category'', JStr ''Other''),
                     (''created_at'', JDate 300)])])
       [(insert_sql, [JStr ''Lunch'', JNum (Fin (51 / 2)), JStr ''Other''])]
       (sample_table @
        [\<lparr>row_id = 3, row_item_name = ''Lunch'', row_amount = 2550,
          row_category = Some ''Other'', row_created_at = 300\<rparr>])
 \<and> (\<exists>name x category c r.
       get_prop (create_request (JStr ''Lunch'') (JNum (Fin (51 / 2))) (JStr ''Travel''))
         ''category'' = Some category
     \<and> c \<in> set validCategories
     \<and> JStr c = (if category \<in> JStr ` set validCategories then category else JStr ''Other'')
     \<and> post_expenses (database sample_env unsupported)
           (create_request (JStr ''Lunch'') (JNum (Fin (51 / 2))) (JStr ''Travel''))
           sample_table =
         responds 201
           (JObj [(''message'', JStr ''Expense added successfully''),
                  (''expense'', row_object r)])
           [(insert_sql, [JStr name, JNum x, JStr c])] (sample_table @ [r])
     \<and> row_category r = Some c
     \<and> get_prop (row_object r) ''category'' = Some (JStr c))"
proof -
  have ok: "map status
     (sent (post_expenses (database sample_env unsupported)
              (create_request (JStr ''Lunch'') (JNum (Fin (51 / 2))) (JStr ''Travel''))
              sample_table)) = [201]"
    by (simp add: post_expenses_database_sample responds_def)
  from ok create_category_in_fixed_set [OF ok] post_expenses_database_sample
  show ?thesis by blast
qed

section \<open>Rows pass through the create and list handlers\<close>

text \<open>
  Claim C10. The create and list handlers put the rows of the pool's result into the
  response as they are, with no field renamed and no value converted: the create
  response holds \<^verbatim>\<open>result.rows[0]\<close>, the list response \<^verbatim>\<open>result.rows\<close>. So a
  numeric column keeps the driver's representation, a decimal string. Only the total
  handler converts: it answers the number \<^verbatim>\<open>parseFloat\<close> reads from the \<^verbatim>\<open>total\<close>
  field of the first row.
\<close>

theorem rows_are_returned_as_given:
  "(issued (post_expenses query body s) = [stmt] \<and> query stmt s = (Rows rows, s') \<longrightarrow>
      sent (post_expenses query body s) =
        [\<lparr>status = 201,
          payload = Json (JObj [(''message'', JStr ''Expense added successfully''),
                                (''expense'', first_row rows)])\<rparr>])
 \<and> (query (list_statement category) s = (Rows rows, s') \<longrightarrow>
      sent (get_expenses query category s) =
        [\<lparr>status = 200, payload = Json (JObj [(''expenses'', JArr rows)])\<rparr>])
 \<and> (query (total_statement category) s = (Rows rows, s')
      \<and> get_prop (first_row rows) ''total'' = Some t \<and> parseFloat t = Some x \<longrightarrow>
      sent (get_expenses_total query category s) =
        [\<lparr>status = 200, payload = Json (JObj [(''total'', JNum x)])\<rparr>])"
proof (intro conjI impI)
  assume "issued (post_expenses query body s) = [stmt] \<and> query stmt s = (Rows rows, s')"
  then show "sent (post_expenses query body s) =
        [\<lparr>status = 201,
          payload = Json (JObj [(''message'', JStr ''Expense added successfully''),
                                (''expense'', first_row rows)])\<rparr>]"
    by (auto simp: post_expenses_def responds_def throws_def Let_def
        split: prod.splits qresult.splits option.splits if_splits)
next
  assume "query (list_statement category) s = (Rows rows, s')"
  then show "sent (get_expenses query category s) =
        [\<lparr>status = 200, payload = Json (JObj [(''expenses'', JArr rows)])\<rparr>]"
    by (simp add: get_expenses_def responds_def Let_def)
next
  assume "query (total_statement category) s = (Rows rows, s')
      \<and> get_prop (first_row rows) ''total'' = Some t \<and> parseFloat t = Some x"
  then show "sent (get_expenses_total query category s) =
        [\<lparr>status = 200, payload = Json (JObj [(''total'', JNum x)])\<rparr>]"
    by (simp add: get_expenses_total_def responds_def Let_def)
qed

lemma row_object_lunch:
  "row_object lunch =
     JObj [(''id'', JNum (Fin 1)), (''item_name'', JStr ''Lunch at cafeteria''),
           (''amount'', JStr ''25.50''), (''category'', JStr ''Food''),
           (''created_at'', JDate 100)]"
  by (simp add: row_object_def lunch_def numeric_text_samples)

lemma parseFloat_30_50: "parseFloat (JStr ''30.50'') = Some (Fin (61 / 2))"
  using parseFloat_numeric_text [of 3050] by (simp add: numeric_text_samples to_double_samples)

text \<open>
  The row of the first test: the amount stays the string \<^verbatim>\<open>25.50\<close> in the create
  and list responses, and the total \<^verbatim>\<open>30.50\<close> is answered as the number 30.5.
\<close>

theorem rows_are_returned_as_given_witness:
  "sent (post_expenses (answering [row_object lunch])
          (create_request (JStr ''Lunch at cafeteria'') (JNum (Fin (51 / 2))) (JStr ''Food'')) 0) =
     [\<lparr>status = 201,
       payload = Json (JObj [(''message'', JStr ''Expense added successfully''),
                             (''expense'',
                              JObj [(''id'', JNum (Fin 1)),
                                    (''item_name'', JStr ''Lunch at cafeteria''),
                                    (''amount'', JStr ''25.50''), (''category'', JStr ''Food''),
                                    (''created_at'', JDate 100)])])\<rparr>]
 \<and> sent (get_expenses (answering [row_object bus_fare, row_object lunch]) JUndefined 0) =
     [\<lparr>status = 200,
       payload = Json (JObj [(''expenses'', JArr [row_object bus_fare, row_object lunch])])\<rparr>]
 \<and> sent (get_expenses_total (answering [JObj [(''total'', JStr ''30.50'')]]) JUndefined 0) =
     [\<lparr>status = 200, payload = Json (JObj [(''total'', JNum (Fin (61 / 2)))])\<rparr>]"
proof -
  let ?body = "create_request (JStr ''Lunch at cafeteria'') (JNum (Fin (51 / 2))) (JStr ''Food'')"
  let ?stmt = "(insert_sql, [JStr ''Lunch at cafeteria'', JNum (Fin (51 / 2)), JStr ''Food''])"
  have name: "trim ''Lunch at cafeteria'' = ''Lunch at cafeteria''"
    by (simp add: trim_def is_space_def)
  have i: "issued (post_expenses (answering [row_object lunch]) ?body 0) = [?stmt]"
    by (simp add: post_expenses_sample name responds_def expenseCategory_def validCategories_def)
  have a: "answering [row_object lunch] ?stmt 0 = (Rows [row_object lunch], Suc 0)"
    by (simp add: answering_def)
  have l: "answering [row_object bus_fare, row_object lunch] (list_statement JUndefined) 0 =
             (Rows [row_object bus_fare, row_object lunch], Suc 0)"
    by (simp add: answering_def)
  have t: "answering [JObj [(''total'', JStr ''30.50'')]] (total_statement JUndefined) 0 =
             (Rows [JObj [(''total'', JStr ''30.50'')]], Suc 0)"
    by (simp add: answering_def)
  have g: "get_prop (first_row [JObj [(''total'', JStr ''30.50'')]]) ''total'' = Some (JStr ''30.50'')"
    by (simp add: first_row_def)
  note given = rows_are_returned_as_given
  from given [of "answering [row_object lunch]" ?body 0 ?stmt "[row_object lunch]" "Suc 0",
      THEN conjunct1] i a
  have c1: "sent (post_expenses (answering [row_object lunch]) ?body 0) =
     [\<lparr>status = 201,
       payload = Json (JObj [(''message'', JStr ''Expense added successfully''),
                             (''expense'', first_row [row_object lunch])])\<rparr>]"
    by simp
  from given [where query = "answering [row_object bus_fare, row_object lunch]"
      and category = JUndefined and s = 0 and rows = "[row_object bus_fare, row_object lunch]"
      and s' = "Suc 0", THEN conjunct2, THEN conjunct1] l
  have c2: "sent (get_expenses (answering [row_object bus_fare, row_object lunch]) JUndefined 0) =
     [\<lparr>status = 200,
       payload = Json (JObj [(''expenses'', JArr [row_object bus_fare, row_object lunch])])\<rparr>]"
    by simp
  from given [where query = "answering [JObj [(''total'', JStr ''30.50'')]]"
      and category = JUndefined and s = 0 and rows = "[JObj [(''total'', JStr ''30.50'')]]"
      and s' = "Suc 0" and t = "JStr ''30.50''" and x = "Fin (61 / 2)",
      THEN conjunct2, THEN conjunct2] t g parseFloat_30_50
  have c3: "sent (get_expenses_total (answering [JObj [(''total'', JStr ''30.50'')]]) JUndefined 0) =
     [\<lparr>status = 200, payload = Json (JObj [(''total'', JNum (Fin (61 / 2)))])\<rparr>]"
    by simp
  from c1 c2 c3 show ?thesis
    by (simp add: first_row_def row_object_lunch)
qed

section \<open>The statements of the read handlers\<close>

lemma list_statement_plain:
  "\<not> truthy category \<Longrightarrow>
     list_statement category = (''SELECT * FROM expenses ORDER BY created_at DESC'', [])"
  by (simp add: list_statement_def with_category_def)

lemma list_statement_filtered:
  "truthy category \<Longrightarrow>
     list_statement category =
       (''SELECT * FROM expenses WHERE category = $1 ORDER BY created_at DESC'', [category])"
  by (simp add: list_statement_def with_category_def)

lemma total_statement_plain:
  "\<not> truthy category \<Longrightarrow>
     total_statement category = (''SELECT COALESCE(SUM(amount), 0) as total FROM expenses'', [])"
  by (simp add: total_statement_def with_category_def)

lemma total_statement_filtered:
  "truthy category \<Longrightarrow>
     total_statement category =
       (''SELECT COALESCE(SUM(amount), 0) as total FROM expenses WHERE category = $1'', [category])"
  by (simp add: total_statement_def with_category_def)

lemma issued_get_expenses: "issued (get_expenses query category s) = [list_statement category]"
  by (simp add: get_expenses_def Let_def responds_def split: prod.splits qresult.splits)

lemma issued_get_expenses_total:
  "issued (get_expenses_total query category s) = [total_statement category]"
  by (simp add: get_expenses_total_def Let_def responds_def
      split: prod.splits qresult.splits option.splits)

lemma newest_first_sorted:
  "sorted_wrt (\<lambda>a b. row_created_at b \<le> row_created_at a) (newest_first rows)"
proof -
  have "sorted (map (\<lambda>r. - row_created_at r) (newest_first rows))"
    unfolding newest_first_def by (rule sorted_sort_key)
  then show ?thesis by (simp add: sorted_map)
qed

lemma newest_first_mset: "mset (newest_first rows) = mset rows"
  by (simp add: newest_first_def)

lemma pg_list_all:
  "pg other (''SELECT * FROM expenses ORDER BY created_at DESC'', []) table =
     (Rows (map row_object (newest_first table)), table)"
  by (simp add: pg.simps)

lemma pg_list_category:
  "CHR 0x00 \<notin> set c \<Longrightarrow>
   pg other (''SELECT * FROM expenses WHERE category = $1 ORDER BY created_at DESC'', [JStr c]) table =
     (Rows (map row_object (newest_first (in_category c table))), table)"
  by (simp add: pg.simps)

lemma get_expenses_pg_plain:
  "\<not> truthy category \<Longrightarrow>
   get_expenses (pg other) category table =
     responds 200 (JObj [(''expenses'', JArr (map row_object (newest_first table)))])
       [list_statement category] table"
  by (simp add: get_expenses_def list_statement_plain pg_list_all)

lemma get_expenses_pg_filtered:
  "c \<noteq> [] \<Longrightarrow> CHR 0x00 \<notin> set c \<Longrightarrow>
   get_expenses (pg other) (JStr c) table =
     responds 200 (JObj [(''expenses'', JArr (map row_object (newest_first (in_category c table))))])
       [list_statement (JStr c)] table"
  by (simp add: get_expenses_def list_statement_filtered pg_list_category)

lemma pg_total_all:
  "pg other (''SELECT COALESCE(SUM(amount), 0) as total FROM expenses'', []) table =
     (Rows [total_row table], table)"
  by (simp add: pg.simps)

lemma pg_total_category:
  "CHR 0x00 \<notin> set c \<Longrightarrow>
   pg other (''SELECT COALESCE(SUM(amount), 0) as total FROM expenses WHERE category = $1'', [JStr c]) table =
     (Rows [total_row (in_category c table)], table)"
  by (simp add: pg.simps)

text \<open>
  Claim C3. When the category parameter is absent or the empty string, the list and
  total handlers send their base statement with no parameter: the list runs
  unfiltered and ordered by \<^verbatim>\<open>created_at\<close> descending (on the table, every row is
  returned, newest first). When it is a non-empty string, whatever string, the
  predicate \<^verbatim>\<open>WHERE category = $1\<close> is appended and the string is the one bound
  parameter, unchanged: it is not checked against the fixed set and not replaced by
  \<^verbatim>\<open>Other\<close> (on the table, exactly the rows of that category are returned).
\<close>

theorem read_statements:
  "(category = JUndefined \<or> category = JStr [] \<longrightarrow>
      issued (get_expenses query category s) =
        [(''SELECT * FROM expenses ORDER BY created_at DESC'', [])]
    \<and> issued (get_expenses_total query category s) =
        [(''SELECT COALESCE(SUM(amount), 0) as total FROM expenses'', [])]
    \<and> get_expenses (pg other) category table =
        responds 200 (JObj [(''expenses'', JArr (map row_object (newest_first table)))])
          [list_statement category] table)
 \<and> (\<forall>c. category = JStr c \<and> c \<noteq> [] \<longrightarrow>
      issued (get_expenses query category s) =
        [(''SELECT * FROM expenses WHERE category = $1 ORDER BY created_at DESC'', [JStr c])]
    \<and> issued (get_expenses_total query category s) =
        [(''SELECT COALESCE(SUM(amount), 0) as total FROM expenses WHERE category = $1'',
          [JStr c])]
    \<and> (CHR 0x00 \<notin> set c \<longrightarrow>
          get_expenses (pg other) category table =
            responds 200
              (JObj [(''expenses'', JArr (map row_object (newest_first (in_category c table))))])
              [list_statement category] table))
 \<and> mset (newest_first table) = mset table
 \<and> sorted_wrt (\<lambda>a b. row_created_at b \<le> row_created_at a) (newest_first table)"
  by (auto simp: issued_get_expenses issued_get_expenses_total list_statement_plain
      list_statement_filtered total_statement_plain total_statement_filtered
      newest_first_mset newest_first_sorted get_expenses_pg_plain get_expenses_pg_filtered)

lemma newest_first_samples:
  "newest_first sample_table = [bus_fare, lunch]"
  "newest_first [lunch] = [lunch]"
  "newest_first [] = []"
  by (simp_all add: newest_first_def sample_table_def lunch_def bus_fare_def)

lemma in_category_samples:
  "in_category ''Food'' sample_table = [lunch]"
  "in_category ''Travel'' sample_table = []"
  by (simp_all add: in_category_def sample_table_def lunch_def bus_fare_def)

text \<open>
  No filter, the empty filter, the filter \<^verbatim>\<open>Travel\<close> (not one of the six labels) and
  the filter \<^verbatim>\<open>Food\<close>, on the sample table.
\<close>

theorem read_statements_witness:
  "issued (get_expenses offline JUndefined 0) =
     [(''SELECT * FROM expenses ORDER BY created_at DESC'', [])]
 \<and> issued (get_expenses_total offline (JStr []) 0) =
     [(''SELECT COALESCE(SUM(amount), 0) as total FROM expenses'', [])]
 \<and> get_expenses (pg unsupported) JUndefined sample_table =
     responds 200 (JObj [(''expenses'', JArr [row_object bus_fare, row_object lunch])])
       [(''SELECT * FROM expenses ORDER BY created_at DESC'', [])] sample_table
 \<and> issued (get_expenses offline (JStr ''Travel'') 0) =
     [(''SELECT * FROM expenses WHERE category = $1 ORDER BY created_at DESC'', [JStr ''Travel''])]
 \<and> issued (get_expenses_total offline (JStr ''Travel'') 0) =
     [(''SELECT COALESCE(SUM(amount), 0) as total FROM expenses WHERE category = $1'',
       [JStr ''Travel''])]
 \<and> get_expenses (pg unsupported) (JStr ''Travel'') sample_table =
     responds 200 (JObj [(''expenses'', JArr [])])
       [(''SELECT * FROM expenses WHERE category = $1 ORDER BY created_at DESC'', [JStr ''Travel''])]
       sample_table
 \<and> get_expenses (pg unsupported) (JStr ''Food'') sample_table =
     responds 200 (JObj [(''expenses'', JArr [row_object lunch])])
       [(''SELECT * FROM expenses WHERE category = $1 ORDER BY created_at DESC'', [JStr ''Food''])]
       sample_table"
  using
    read_statements [of JUndefined offline 0 unsupported sample_table]
    read_statements [of "JStr []" offline 0 unsupported sample_table]
    read_statements [of "JStr ''Travel''" offline 0 unsupported sample_table]
    read_statements [of "JStr ''Food''" offline 0 unsupported sample_table]
  by (simp add: newest_first_samples in_category_samples list_statement_plain
      list_statement_filtered)

section \<open>The total\<close>

lemma get_prop_total_row:
  "get_prop (first_row [total_row rows]) ''total'' =
     Some (JStr (if rows = [] then ''0'' else numeric_text (sum_list (map row_amount rows))))"
  by (simp add: first_row_def total_row_def)

lemma to_double_0: "to_double 0 = Fin 0"
  by (simp add: to_double_def)

lemma parseFloat_total:
  "parseFloat (JStr (if rows = [] then ''0'' else numeric_text (sum_list (map row_amount rows)))) =
     Some (to_double (of_nat (sum_list (map row_amount rows)) / 100))"
  by (simp add: parseFloat_zero parseFloat_numeric_text to_double_0)

lemma get_expenses_total_pg_plain:
  "\<not> truthy category \<Longrightarrow>
   get_expenses_total (pg other) category table =
     responds 200
       (JObj [(''total'', JNum (to_double (of_nat (sum_list (map row_amount table)) / 100)))])
       [total_statement category] table"
  by (simp add: get_expenses_total_def total_statement_plain pg_total_all get_prop_total_row
      parseFloat_total)

lemma get_expenses_total_pg_filtered:
  "c \<noteq> [] \<Longrightarrow> CHR 0x00 \<notin> set c \<Longrightarrow>
   get_expenses_total (pg other) (JStr c) table =
     responds 200
       (JObj [(''total'',
               JNum (to_double (of_nat (sum_list (map row_amount (in_category c table))) / 100)))])
       [total_statement (JStr c)] table"
  by (simp add: get_expenses_total_def total_statement_filtered pg_total_category
      get_prop_total_row parseFloat_total)

lemma get_expenses_total_shape:
  "\<exists>p. sent (get_expenses_total query category s) = [p]
     \<and> (p = \<lparr>status = 500, payload = Json (error_body ''Failed to calculate total spending'')\<rparr>
        \<or> (\<exists>x. p = \<lparr>status = 200, payload = Json (JObj [(''total'', JNum x)])\<rparr>))"
  by (auto simp: get_expenses_total_def responds_def Let_def
      split: prod.splits qresult.splits option.splits)

lemma total_finite:
  assumes "(k::nat) < 10 ^ 300"
  shows "\<exists>m. to_double (of_nat k / 100) = Fin m \<and> 0 \<le> m"
proof -
  from assms have "(of_nat k :: rat) < of_nat (10 ^ 300)"
    by (simp only: of_nat_less_iff)
  then have "(of_nat k :: rat) / 100 < 10 ^ 300 / 100"
    by (simp add: divide_strict_right_mono)
  also have "\<dots> < pow2 1023"
    by (simp add: pow2_def)
  finally have "(of_nat k :: rat) / 100 < pow2 1023" .
  moreover have "(0::rat) \<le> of_nat k / 100" by simp
  ultimately show ?thesis by (intro to_double_finite)
qed

text \<open>
  Claim C7. On the table, a total request (category absent, empty, or a string the
  server accepts) is answered 200 with one number: the sum of the amounts of the
  matching rows, as the double nearest to it; when no row matches the number is
  exactly 0, not an error. The number is finite and not negative for every sum below
  \<open>10^298\<close> (the sums a table of \<^verbatim>\<open>NUMERIC(10, 2)\<close> amounts can reach). With any
  pool, the handler's answer is either the 500 error or a 200 whose \<^verbatim>\<open>total\<close> is a
  number, never a string and never null.
\<close>

theorem total_is_numeric_sum:
  "(category = JUndefined \<or> category = JStr [] \<longrightarrow>
      get_expenses_total (pg other) category table =
        responds 200
          (JObj [(''total'', JNum (to_double (of_nat (sum_list (map row_amount table)) / 100)))])
          [total_statement category] table
    \<and> (table = [] \<longrightarrow>
          get_expenses_total (pg other) category table =
            responds 200 (JObj [(''total'', JNum (Fin 0))]) [total_statement category] table))
 \<and> (\<forall>c. category = JStr c \<and> c \<noteq> [] \<and> CHR 0x00 \<notin> set c \<longrightarrow>
      get_expenses_total (pg other) category table =
        responds 200
          (JObj [(''total'',
                  JNum (to_double (of_nat (sum_list (map row_amount (in_category c table))) / 100)))])
          [total_statement category] table
    \<and> (in_category c table = [] \<longrightarrow>
          get_expenses_total (pg other) category table =
            responds 200 (JObj [(''total'', JNum (Fin 0))]) [total_statement category] table))
 \<and> (\<forall>rows. sum_list (map row_amount rows) < 10 ^ 300 \<longrightarrow>
       (\<exists>m. to_double (of_nat (sum_list (map row_amount rows)) / 100) = Fin m \<and> 0 \<le> m))
 \<and> (\<exists>p. sent (get_expenses_total query category s) = [p]
       \<and> (p = \<lparr>status = 500, payload = Json (error_body ''Failed to calculate total spending'')\<rparr>
          \<or> (\<exists>x. p = \<lparr>status = 200, payload = Json (JObj [(''total'', JNum x)])\<rparr>)))"
  using get_expenses_total_shape [of query category s]
  by (auto simp: get_expenses_total_pg_plain get_expenses_total_pg_filtered to_double_0
      intro: total_finite)

text \<open>
  The amounts 25.50 and 5.00 with no filter give 30.5; the empty table and a category
  with no rows give 0.
\<close>

theorem total_is_numeric_sum_witness:
  "get_expenses_total (pg unsupported) JUndefined sample_table =
     responds 200 (JObj [(''total'', JNum (Fin (61 / 2)))])
       [(''SELECT COALESCE(SUM(amount), 0) as total FROM expenses'', [])] sample_table
 \<and> get_expenses_total (pg unsupported) JUndefined [] =
     responds 200 (JObj [(''total'', JNum (Fin 0))])
       [(''SELECT COALESCE(SUM(amount), 0) as total FROM expenses'', [])] []
 \<and> get_expenses_total (pg unsupported) (JStr ''Travel'') sample_table =
     responds 200 (JObj [(''total'', JNum (Fin 0))])
       [(''SELECT COALESCE(SUM(amount), 0) as total FROM expenses WHERE category = $1'',
         [JStr ''Travel''])] sample_table"
proof -
  have sum: "(of_nat (sum_list (map row_amount sample_table)) :: rat) / 100 = 61 / 2"
    by (simp add: sample_table_def lunch_def bus_fare_def)
  from total_is_numeric_sum [of JUndefined unsupported sample_table offline 0, THEN conjunct1]
  have w1: "get_expenses_total (pg unsupported) JUndefined sample_table =
     responds 200 (JObj [(''total'', JNum (Fin (61 / 2)))])
       [(''SELECT COALESCE(SUM(amount), 0) as total FROM expenses'', [])] sample_table"
    by (simp add: sum to_double_samples total_statement_plain)
  from total_is_numeric_sum [of JUndefined unsupported "[]" offline 0, THEN conjunct1]
  have w2: "get_expenses_total (pg unsupported) JUndefined [] =
     responds 200 (JObj [(''total'', JNum (Fin 0))])
       [(''SELECT COALESCE(SUM(amount), 0) as total FROM expenses'', [])] []"
    by (simp add: to_double_0 total_statement_plain)
  from total_is_numeric_sum [of "JStr ''Travel''" unsupported sample_table offline 0,
      THEN conjunct2, THEN conjunct1]
  have w3: "get_expenses_total (pg unsupported) (JStr ''Travel'') sample_table =
     responds 200 (JObj [(''total'', JNum (Fin 0))])
       [(''SELECT COALESCE(SUM(amount), 0) as total FROM expenses WHERE category = $1'',
         [JStr ''Travel''])] sample_table"
    by (simp add: to_double_0 in_category_samples total_statement_filtered)
  from w1 w2 w3 show ?thesis by blast
qed

section \<open>Deleting\<close>

lemma int4_param_of_int:
  "- 2147483648 \<le> n \<Longrightarrow> n \<le> 2147483647 \<Longrightarrow> int4_param (Fin (of_int n)) = Some n"
  by (simp add: int4_param_def)

lemma delete_expense_valid:
  assumes "\<not> (isNaN (parseInt ident) \<or> js_le (parseInt ident) (Fin 0))"
  shows "delete_expense query ident s =
     (let check = (select_by_id_sql, [JNum (parseInt ident)]);
          del = (delete_sql, [JNum (parseInt ident)]);
          failed = responds 500 (error_body ''Failed to delete expense from database'')
      in case query check s of
           (Rejects, s1) \<Rightarrow> failed [check] s1
         | (Rows found, s1) \<Rightarrow>
             if length found = 0 then responds 404 (error_body ''Expense not found'') [check] s1
             else
               (case query del s1 of
                  (Rejects, s2) \<Rightarrow> failed [check, del] s2
                | (Rows deleted, s2) \<Rightarrow>
                    responds 200
                      (JObj [(''message'', JStr ''Expense deleted successfully''),
                             (''id'', JNum (parseInt ident))])
                      [check, del] s2))"
  using assms by (simp add: delete_expense_def Let_def)

lemma pg_select_by_id:
  "int4_param x = Some n \<Longrightarrow>
   pg other (select_by_id_sql, [JNum x]) table =
     (Rows (map row_object (filter (\<lambda>r. row_id r = n) table)), table)"
  by (simp add: select_by_id_sql_def pg.simps)

lemma pg_delete:
  "int4_param x = Some n \<Longrightarrow>
   pg other (delete_sql, [JNum x]) table = (Rows [], filter (\<lambda>r. row_id r \<noteq> n) table)"
  by (simp add: delete_sql_def pg.simps)

lemma delete_expense_pg_missing:
  assumes "parseInt_math ident = Some n" and "0 < n" and "n \<le> 2147483647"
      and "filter (\<lambda>r. row_id r = n) table = []"
  shows "delete_expense (pg other) ident table =
           responds 404 (error_body ''Expense not found'')
             [(select_by_id_sql, [JNum (Fin (of_int n))])] table"
proof -
  from assms(2,3) have p: "int4_param (Fin (of_int n)) = Some n"
    by (intro int4_param_of_int) simp_all
  note x = parseInt_exact [OF assms(1-3)]
  show ?thesis
    by (simp add: delete_expense_valid [OF parseInt_accepts [OF assms(1,2)]] x Let_def
        pg_select_by_id [OF p] assms(4))
qed

lemma delete_expense_pg_found:
  assumes "parseInt_math ident = Some n" and "0 < n" and "n \<le> 2147483647"
      and "filter (\<lambda>r. row_id r = n) table \<noteq> []"
  shows "delete_expense (pg other) ident table =
           responds 200
             (JObj [(''message'', JStr ''Expense deleted successfully''),
                    (''id'', JNum (Fin (of_int n)))])
             [(select_by_id_sql, [JNum (Fin (of_int n))]), (delete_sql, [JNum (Fin (of_int n))])]
             (filter (\<lambda>r. row_id r \<noteq> n) table)"
proof -
  from assms(2,3) have p: "int4_param (Fin (of_int n)) = Some n"
    by (intro int4_param_of_int) simp_all
  note x = parseInt_exact [OF assms(1-3)]
  show ?thesis
    using assms(4)
    by (simp add: delete_expense_valid [OF parseInt_accepts [OF assms(1,2)]] x Let_def
        pg_select_by_id [OF p] pg_delete [OF p])
qed

lemma store_responds: "store (responds code v stmts s) = s"
  by (simp add: responds_def)

lemma newest_first_keeps:
  "list_all P rows \<Longrightarrow> list_all P (newest_first rows)"
  by (simp add: newest_first_def list_all_iff)

lemma remaining_rows:
  "list_all (\<lambda>r. row_id r \<noteq> n) (filter (\<lambda>r. row_id r \<noteq> n) table)"
  "list_all (\<lambda>r. row_id r \<noteq> n) (in_category c (filter (\<lambda>r. row_id r \<noteq> n) table))"
  by (simp_all add: list_all_iff in_category_def)

text \<open>
  Claim C8. For a delete request whose identifier parses to an integer \<open>n > 0\<close>
  (the handler binds \<^verbatim>\<open>expenseId\<close>, the number \<^verbatim>\<open>parseInt\<close> returns): when the
  existence check returns no row, the answer is 404 and the check is the only
  statement sent; when it returns a row and the delete statement is executed, the
  answer is 200 with the message and the id, and the two statements were sent in that
  order. On the table, for \<open>n\<close> in the range of the id column, \<^verbatim>\<open>expenseId\<close> is
  \<open>n\<close> itself: with no row of id \<open>n\<close> the answer is 404 and the table is
  unchanged; with one, the answer is 200, the rows of id \<open>n\<close> are gone, and a list
  request that follows, filtered or not, returns no row of id \<open>n\<close>.
\<close>

theorem delete_checks_then_deletes:
  assumes "parseInt_math ident = Some n" and "0 < n"
  shows
  "(\<forall>(query :: 's pool) s s1.
      query (select_by_id_sql, [JNum (parseInt ident)]) s = (Rows [], s1) \<longrightarrow>
      delete_expense query ident s =
        responds 404 (error_body ''Expense not found'')
          [(select_by_id_sql, [JNum (parseInt ident)])] s1)
 \<and> (\<forall>(query :: 's pool) s s1 s2 r rs gone.
      query (select_by_id_sql, [JNum (parseInt ident)]) s = (Rows (r # rs), s1)
      \<and> query (delete_sql, [JNum (parseInt ident)]) s1 = (Rows gone, s2) \<longrightarrow>
      delete_expense query ident s =
        responds 200
          (JObj [(''message'', JStr ''Expense deleted successfully''),
                 (''id'', JNum (parseInt ident))])
          [(select_by_id_sql, [JNum (parseInt ident)]), (delete_sql, [JNum (parseInt ident)])]
          s2)
 \<and> (n \<le> 2147483647 \<longrightarrow>
      parseInt ident = Fin (of_int n)
    \<and> (filter (\<lambda>r. row_id r = n) table = [] \<longrightarrow>
         delete_expense (pg other) ident table =
           responds 404 (error_body ''Expense not found'')
             [(select_by_id_sql, [JNum (Fin (of_int n))])] table)
    \<and> (filter (\<lambda>r. row_id r = n) table \<noteq> [] \<longrightarrow>
         delete_expense (pg other) ident table =
           responds 200
             (JObj [(''message'', JStr ''Expense deleted successfully''),
                    (''id'', JNum (Fin (of_int n)))])
             [(select_by_id_sql, [JNum (Fin (of_int n))]), (delete_sql, [JNum (Fin (of_int n))])]
             (filter (\<lambda>r. row_id r \<noteq> n) table)
       \<and> get_expenses (pg other) JUndefined (store (delete_expense (pg other) ident table)) =
           responds 200
             (JObj [(''expenses'',
                     JArr (map row_object (newest_first (filter (\<lambda>r. row_id r \<noteq> n) table))))])
             [list_statement JUndefined] (filter (\<lambda>r. row_id r \<noteq> n) table)
       \<and> list_all (\<lambda>r. row_id r \<noteq> n) (newest_first (filter (\<lambda>r. row_id r \<noteq> n) table))
       \<and> (\<forall>c. c \<noteq> [] \<and> CHR 0x00 \<notin> set c \<longrightarrow>
             get_expenses (pg other) (JStr c) (store (delete_expense (pg other) ident table)) =
               responds 200
                 (JObj [(''expenses'',
                         JArr (map row_object
                                 (newest_first (in_category c (filter (\<lambda>r. row_id r \<noteq> n) table)))))])
                 [list_statement (JStr c)] (filter (\<lambda>r. row_id r \<noteq> n) table)
           \<and> list_all (\<lambda>r. row_id r \<noteq> n)
                 (newest_first (in_category c (filter (\<lambda>r. row_id r \<noteq> n) table))))))"
proof (intro conjI allI impI)
  note valid = delete_expense_valid [OF parseInt_accepts [OF assms]]
  fix query :: "'s pool" and s s1
  assume "query (select_by_id_sql, [JNum (parseInt ident)]) s = (Rows [], s1)"
  then show "delete_expense query ident s =
        responds 404 (error_body ''Expense not found'')
          [(select_by_id_sql, [JNum (parseInt ident)])] s1"
    by (simp add: valid Let_def)
next
  note valid = delete_expense_valid [OF parseInt_accepts [OF assms]]
  fix query :: "'s pool" and s s1 s2 r rs gone
  assume "query (select_by_id_sql, [JNum (parseInt ident)]) s = (Rows (r # rs), s1)
      \<and> query (delete_sql, [JNum (parseInt ident)]) s1 = (Rows gone, s2)"
  then show "delete_expense query ident s =
        responds 200
          (JObj [(''message'', JStr ''Expense deleted successfully''),
                 (''id'', JNum (parseInt ident))])
          [(select_by_id_sql, [JNum (parseInt ident)]), (delete_sql, [JNum (parseInt ident)])]
          s2"
    by (simp add: valid Let_def)
next
  assume "n \<le> 2147483647"
  then show "parseInt ident = Fin (of_int n)"
    by (rule parseInt_exact [OF assms])
next
  assume "n \<le> 2147483647" and "filter (\<lambda>r. row_id r = n) table = []"
  then show "delete_expense (pg other) ident table =
           responds 404 (error_body ''Expense not found'')
             [(select_by_id_sql, [JNum (Fin (of_int n))])] table"
    by (rule delete_expense_pg_missing [OF assms])
next
  assume b: "n \<le> 2147483647" and f: "filter (\<lambda>r. row_id r = n) table \<noteq> []"
  note found = delete_expense_pg_found [OF assms b f, of other]
  show "delete_expense (pg other) ident table =
           responds 200
             (JObj [(''message'', JStr ''Expense deleted successfully''),
                    (''id'', JNum (Fin (of_int n)))])
             [(select_by_id_sql, [JNum (Fin (of_int n))]), (delete_sql, [JNum (Fin (of_int n))])]
             (filter (\<lambda>r. row_id r \<noteq> n) table)"
    by (rule found)
  show "get_expenses (pg other) JUndefined (store (delete_expense (pg other) ident table)) =
           responds 200
             (JObj [(''expenses'',
                     JArr (map row_object (newest_first (filter (\<lambda>r. row_id r \<noteq> n) table))))])
             [list_statement JUndefined] (filter (\<lambda>r. row_id r \<noteq> n) table)"
    by (simp add: found store_responds get_expenses_pg_plain)
  show "list_all (\<lambda>r. row_id r \<noteq> n) (newest_first (filter (\<lambda>r. row_id r \<noteq> n) table))"
    by (intro newest_first_keeps remaining_rows)
  fix c :: string
  assume c: "c \<noteq> [] \<and> CHR 0x00 \<notin> set c"
  then show "get_expenses (pg other) (JStr c) (store (delete_expense (pg other) ident table)) =
               responds 200
                 (JObj [(''expenses'',
                         JArr (map row_object
                                 (newest_first (in_category c (filter (\<lambda>r. row_id r \<noteq> n) table)))))])
                 [list_statement (JStr c)] (filter (\<lambda>r. row_id r \<noteq> n) table)"
    by (simp add: found store_responds get_expenses_pg_filtered)
  show "list_all (\<lambda>r. row_id r \<noteq> n)
          (newest_first (in_category c (filter (\<lambda>r. row_id r \<noteq> n) table)))"
    by (intro newest_first_keeps remaining_rows)
qed

lemma sample_ids:
  "filter (\<lambda>r. row_id r = 1) sample_table = [lunch]"
  "filter (\<lambda>r. row_id r \<noteq> 1) sample_table = [bus_fare]"
  "filter (\<lambda>r. row_id r = 999) sample_table = []"
  by (simp_all add: sample_table_def lunch_def bus_fare_def)

text \<open>
  Deleting id 1 and id 999 with pools that answer a fixed result, and on the sample
  table, followed by a list.
\<close>

theorem delete_checks_then_deletes_witness:
  "parseInt_math ''1'' = Some 1 \<and> parseInt_math ''999'' = Some 999
 \<and> delete_expense (answering []) ''1'' 0 =
     responds 404 (error_body ''Expense not found'') [(select_by_id_sql, [JNum (Fin 1)])] (Suc 0)
 \<and> delete_expense (answering [row_object lunch]) ''1'' 0 =
     responds 200
       (JObj [(''message'', JStr ''Expense deleted successfully''), (''id'', JNum (Fin 1))])
       [(select_by_id_sql, [JNum (Fin 1)]), (delete_sql, [JNum (Fin 1)])] (Suc (Suc 0))
 \<and> delete_expense (pg unsupported) ''999'' sample_table =
     responds 404 (error_body ''Expense not found'') [(select_by_id_sql, [JNum (Fin 999)])]
       sample_table
 \<and> delete_expense (pg unsupported) ''1'' sample_table =
     responds 200
       (JObj [(''message'', JStr ''Expense deleted successfully''), (''id'', JNum (Fin 1))])
       [(select_by_id_sql, [JNum (Fin 1)]), (delete_sql, [JNum (Fin 1)])] [bus_fare]
 \<and> get_expenses (pg unsupported) JUndefined
       (store (delete_expense (pg unsupported) ''1'' sample_table)) =
     responds 200 (JObj [(''expenses'', JArr [row_object bus_fare])])
       [(''SELECT * FROM expenses ORDER BY created_at DESC'', [])] [bus_fare]"
proof -
  have one: "(0::int) < 1" and many: "(0::int) < 999" by simp_all
  note first = delete_checks_then_deletes [OF parseInt_math_samples(4) one]
  note last = delete_checks_then_deletes [OF parseInt_math_samples(5) many]
  have x: "parseInt ''1'' = Fin 1"
    using parseInt_samples(1) by simp
  have a: "answering [] (select_by_id_sql, [JNum (parseInt ''1'')]) 0 = (Rows [], Suc 0)"
    by (simp add: answering_def)
  have b: "answering [row_object lunch] (select_by_id_sql, [JNum (parseInt ''1'')]) 0 =
             (Rows (row_object lunch # []), Suc 0)
         \<and> answering [row_object lunch] (delete_sql, [JNum (parseInt ''1'')]) (Suc 0) =
             (Rows [row_object lunch], Suc (Suc 0))"
    by (simp add: answering_def)
  from first [where 's = nat and other = unsupported and table = sample_table,
      THEN conjunct1, rule_format, where query = "answering []" and s = 0 and ?s1.0 = "Suc 0",
      OF a]
  have c1: "delete_expense (answering []) ''1'' 0 =
     responds 404 (error_body ''Expense not found'') [(select_by_id_sql, [JNum (Fin 1)])] (Suc 0)"
    by (simp add: x)
  from first [where 's = nat and other = unsupported and table = sample_table,
      THEN conjunct2, THEN conjunct1, rule_format,
      where query = "answering [row_object lunch]" and s = 0 and ?s1.0 = "Suc 0"
        and r = "row_object lunch" and rs = "[]" and gone = "[row_object lunch]"
        and ?s2.0 = "Suc (Suc 0)", OF b]
  have c2: "delete_expense (answering [row_object lunch]) ''1'' 0 =
     responds 200
       (JObj [(''message'', JStr ''Expense deleted successfully''), (''id'', JNum (Fin 1))])
       [(select_by_id_sql, [JNum (Fin 1)]), (delete_sql, [JNum (Fin 1)])] (Suc (Suc 0))"
    by (simp add: x)
  from last [where 's = nat and other = unsupported and table = sample_table,
      THEN conjunct2, THEN conjunct2]
  have c3: "delete_expense (pg unsupported) ''999'' sample_table =
     responds 404 (error_body ''Expense not found'') [(select_by_id_sql, [JNum (Fin 999)])]
       sample_table"
    by (simp add: sample_ids)
  from first [where 's = nat and other = unsupported and table = sample_table,
      THEN conjunct2, THEN conjunct2]
  have c4: "delete_expense (pg unsupported) ''1'' sample_table =
     responds 200
       (JObj [(''message'', JStr ''Expense deleted successfully''), (''id'', JNum (Fin 1))])
       [(select_by_id_sql, [JNum (Fin 1)]), (delete_sql, [JNum (Fin 1)])] [bus_fare]
   \<and> get_expenses (pg unsupported) JUndefined
       (store (delete_expense (pg unsupported) ''1'' sample_table)) =
     responds 200 (JObj [(''expenses'', JArr [row_object bus_fare])])
       [(''SELECT * FROM expenses ORDER BY created_at DESC'', [])] [bus_fare]"
    by (simp add: sample_ids newest_first_def list_statement_plain store_responds
        get_expenses_pg_plain)
  from c1 c2 c3 c4 parseInt_math_samples(4,5) show ?thesis by blast
qed

section \<open>Identifiers that are not integers\<close>

lemma parseInt_math_prefix_samples:
  "parseInt_math ''12abc'' = Some 12"
  "parseInt_math ''1.9'' = Some 1"
  by (simp_all add: parseInt_math_def unsigned_int_math_def starts_with_def is_space_def
      is_digit_def digits_value_def digit_val_def)

lemma parseInt_prefix_samples:
  "parseInt ''12abc'' = Fin 12"
  "parseInt ''1.9'' = Fin 1"
  using parseInt_exact [OF parseInt_math_prefix_samples(1)]
    parseInt_exact [OF parseInt_math_prefix_samples(2)]
  by simp_all

text \<open>
  Claim C2 says that every path identifier that does not parse to an integer greater
  than 0, the non-numeric ones among them, is refused with status 400 before any
  statement is sent. \<^verbatim>\<open>parseInt\<close> reads the longest integer prefix and ignores the
  rest, so the identifiers \<^verbatim>\<open>12abc\<close> and \<^verbatim>\<open>1.9\<close>, which are not integers, pass the
  check as 12 and 1: with every pool the existence check is sent with that id, and on
  the sample table the request for \<^verbatim>\<open>1.9\<close> deletes row 1 and answers 200.
\<close>

theorem delete_accepts_integer_prefix:
  "(\<exists>rest. issued (delete_expense query ''12abc'' s) =
            (select_by_id_sql, [JNum (Fin 12)]) # rest)
 \<and> (\<exists>rest. issued (delete_expense query ''1.9'' s) =
            (select_by_id_sql, [JNum (Fin 1)]) # rest)
 \<and> delete_expense (pg other) ''1.9'' sample_table =
     responds 200
       (JObj [(''message'', JStr ''Expense deleted successfully''), (''id'', JNum (Fin 1))])
       [(select_by_id_sql, [JNum (Fin 1)]), (delete_sql, [JNum (Fin 1)])] [bus_fare]"
proof (intro conjI)
  show "\<exists>rest. issued (delete_expense query ''12abc'' s) =
            (select_by_id_sql, [JNum (Fin 12)]) # rest"
    by (simp add: delete_expense_def parseInt_prefix_samples Let_def responds_def
        split: prod.splits qresult.splits)
  show "\<exists>rest. issued (delete_expense query ''1.9'' s) =
            (select_by_id_sql, [JNum (Fin 1)]) # rest"
    by (simp add: delete_expense_def parseInt_prefix_samples Let_def responds_def
        split: prod.splits qresult.splits)
  have one: "(0::int) < 1" "(1::int) \<le> 2147483647" by simp_all
  from delete_expense_pg_found [OF parseInt_math_prefix_samples(2) one, of sample_table other]
  show "delete_expense (pg other) ''1.9'' sample_table =
     responds 200
       (JObj [(''message'', JStr ''Expense deleted successfully''), (''id'', JNum (Fin 1))])
       [(select_by_id_sql, [JNum (Fin 1)]), (delete_sql, [JNum (Fin 1)])] [bus_fare]"
    by (simp add: sample_ids)
qed

end
